theory Spec2Isabelle
  imports Complex_Main "HOL-Library.Multiset"
begin

section \<open>Data model\<close>

text \<open>
  The program is \<^verbatim>\<open>src/ui/app.py\<close>: a Streamlit script whose forecasting helpers are
  \<^verbatim>\<open>load_price_data\<close>, \<^verbatim>\<open>prepare_features\<close>, \<^verbatim>\<open>train_model\<close> and \<^verbatim>\<open>make_forecast\<close>.

  A pandas timestamp (dtype \<^verbatim>\<open>datetime64[ns]\<close>) is the number of nanoseconds since
  1970-01-01T00:00, held in a signed 64-bit integer whose least value stands for \<^verbatim>\<open>NaT\<close>.
  It is an \<open>int\<close> here, and every operation that makes a timestamp or a time difference
  checks the range \<open>- INT64_MAX .. INT64_MAX\<close> as pandas does: \<^verbatim>\<open>Timestamp.max\<close> is
  2262-04-11T23:47:16.854775807 and \<^verbatim>\<open>Timedelta.max\<close> is 106751 days and as much.
  \<open>timedelta i\<close> is the length of \<open>i\<close> whole days and \<^verbatim>\<open>toordinal\<close> is the proleptic Gregorian
  day number of the date part (1970-01-01 is day 719163).
  Missing cells (pandas' \<^verbatim>\<open>NaN\<close>/\<^verbatim>\<open>NaT\<close>) are outside this model: every cell holds a value.
\<close>

type_synonym timestamp = int

definition NS_PER_DAY :: int where
  "NS_PER_DAY = 86400000000000"

definition INT64_MAX :: int where
  "INT64_MAX = 9223372036854775807"

definition in_bounds :: "int \<Rightarrow> bool" where
  "in_bounds t = (- INT64_MAX \<le> t \<and> t \<le> INT64_MAX)"

definition timedelta :: "int \<Rightarrow> int" where
  "timedelta days = days * NS_PER_DAY"

definition toordinal :: "timestamp \<Rightarrow> int" where
  "toordinal t = t div NS_PER_DAY + 719163"

text \<open>The Python exceptions the helpers can raise.\<close>

datatype error =
    ValueError string
  | KeyError string
  | TypeError string
  | IndexError
  | FileNotFoundError
  | OutOfBoundsDatetime
  | OutOfBoundsTimedelta

text \<open>
  A DataFrame: its index labels and its columns in order, each column a list of cells.
  \<open>Text\<close> is an unparsed string as \<^verbatim>\<open>read_csv\<close> leaves it, \<open>Num\<close> a float, \<open>IntV\<close> an
  integer, \<open>Stamp\<close> a timestamp.
\<close>

datatype cell = Text string | Num real | IntV int | Stamp timestamp

record frame =
  df_index :: "nat list"
  df_columns :: "(string \<times> cell list) list"

definition nrows :: "frame \<Rightarrow> nat" where
  "nrows df = length (df_index df)"

definition column_names :: "frame \<Rightarrow> string list" where
  "column_names df = map fst (df_columns df)"

text \<open>\<^verbatim>\<open>df[name]\<close>: the column, or \<^verbatim>\<open>KeyError\<close> (\<open>None\<close>).\<close>

definition getitem :: "frame \<Rightarrow> string \<Rightarrow> cell list option" where
  "getitem df name = map_of (df_columns df) name"

text \<open>\<^verbatim>\<open>df[name] = values\<close>: replaces the column in place, or appends a new last column.\<close>

fun set_column :: "string \<Rightarrow> cell list \<Rightarrow> (string \<times> cell list) list \<Rightarrow> (string \<times> cell list) list" where
  "set_column k v [] = [(k, v)]"
| "set_column k v ((k', v') # cs) =
     (if k = k' then (k, v) # cs else (k', v') # set_column k v cs)"

definition setitem :: "frame \<Rightarrow> string \<Rightarrow> cell list \<Rightarrow> frame" where
  "setitem df name vals = df\<lparr>df_columns := set_column name vals (df_columns df)\<rparr>"

text \<open>Row \<open>i\<close> of a frame (the cells of every column at position \<open>i\<close>), and all rows in order.\<close>

definition row_at :: "frame \<Rightarrow> nat \<Rightarrow> cell list" where
  "row_at df i = map (\<lambda>(name, cs). cs ! i) (df_columns df)"

definition rows :: "frame \<Rightarrow> cell list list" where
  "rows df = map (row_at df) [0..<nrows df]"

text \<open>Every column is as long as the index, as in every frame pandas builds.\<close>

definition wf_frame :: "frame \<Rightarrow> bool" where
  "wf_frame df = list_all (\<lambda>(name, cs). length cs = nrows df) (df_columns df)"

text \<open>The timestamps of a column of dtype datetime, \<open>None\<close> when a cell is not a timestamp.\<close>

fun stamp_of :: "cell \<Rightarrow> timestamp option" where
  "stamp_of (Stamp t) = Some t"
| "stamp_of _ = None"

definition as_stamps :: "cell list \<Rightarrow> timestamp list option" where
  "as_stamps cs = those (map stamp_of cs)"

section \<open>Library parameters\<close>

text \<open>
  The script calls pandas, NumPy and scikit-learn, whose code is not part of the
  repository. What the helpers need of them is taken as parameters:
  \<^item> \<open>parse_datetime\<close>: the conversion \<^verbatim>\<open>pd.to_datetime\<close> applies to one cell, \<open>None\<close> when
    the cell cannot be read as a date;
  \<^item> \<open>argsort\<close>: the indexer \<^verbatim>\<open>sort_values\<close> computes for a datetime column with its
    default \<^verbatim>\<open>kind='quicksort'\<close>;
  \<^item> \<open>svr_fit\<close>: \<^verbatim>\<open>SVR(C, gamma, kernel).fit(X, y)\<close>, returning the fitted regression
    function from a feature row to a value.
\<close>

record svr_params =
  C :: real
  gamma :: real
  kernel :: string

type_synonym model = "int list \<Rightarrow> real"

record lib =
  parse_datetime :: "cell \<Rightarrow> timestamp option"
  argsort :: "timestamp list \<Rightarrow> nat list"
  svr_fit :: "svr_params \<Rightarrow> int list list \<Rightarrow> real list \<Rightarrow> model"

section \<open>load_price_data\<close>

text \<open>
  \<^verbatim>\<open>pd.to_datetime(df["Date"])\<close>: every cell converted, \<^verbatim>\<open>ValueError\<close> when one cannot be
  and \<^verbatim>\<open>OutOfBoundsDatetime\<close> when an instant does not fit a timestamp.
\<close>

definition to_datetime :: "(cell \<Rightarrow> timestamp option) \<Rightarrow> cell list \<Rightarrow> error + timestamp list" where
  "to_datetime parse cs =
     (case those (map parse cs) of
        None \<Rightarrow> Inl (ValueError ''Unknown datetime string format'')
      | Some ts \<Rightarrow> if list_all in_bounds ts then Inr ts else Inl OutOfBoundsDatetime)"

text \<open>
  \<^verbatim>\<open>df.take(indexer)\<close>: the rows at the positions of the indexer, in its order, with their
  index labels; \<^verbatim>\<open>IndexError\<close> for a position out of range.
\<close>

definition take_rows :: "nat list \<Rightarrow> frame \<Rightarrow> error + frame" where
  "take_rows indexer df =
     (if list_all (\<lambda>i. i < nrows df) indexer
      then Inr (df\<lparr>df_index := map (\<lambda>i. df_index df ! i) indexer,
                    df_columns := map (\<lambda>(name, cs). (name, map (\<lambda>i. cs ! i) indexer)) (df_columns df)\<rparr>)
      else Inl IndexError)"

text \<open>
  \<^verbatim>\<open>df.sort_values("Date")\<close> on a datetime column whose values are \<open>keys\<close>: pandas computes
  the indexer of the key column with the sorting routine and takes the rows in that order.
\<close>

definition sort_values :: "(timestamp list \<Rightarrow> nat list) \<Rightarrow> timestamp list \<Rightarrow> frame \<Rightarrow> error + frame" where
  "sort_values asort keys df = take_rows (asort keys) df"

text \<open>\<^verbatim>\<open>df.reset_index(drop=True)\<close>: the old labels are dropped for \<open>0, 1, ..., n-1\<close>.\<close>

definition reset_index :: "frame \<Rightarrow> frame" where
  "reset_index df = df\<lparr>df_index := [0..<nrows df]\<rparr>"

text \<open>
  \<^verbatim>\<open>load_price_data(file)\<close>, lines 93-105. An uploaded file is modelled by the table
  \<^verbatim>\<open>pd.read_csv\<close> reads from it; \<open>disk\<close> is the bundled \<^verbatim>\<open>bitcoin.csv\<close>, \<open>None\<close> when the
  file does not exist.
\<close>

definition missing_columns_msg :: string where
  "missing_columns_msg = ''CSV must contain at least 'Date' and 'Price' columns.''"

definition read_csv :: "frame option \<Rightarrow> frame option \<Rightarrow> error + frame" where
  "read_csv disk file =
     (case file of
        Some t \<Rightarrow> Inr t
      | None \<Rightarrow> (case disk of None \<Rightarrow> Inl FileNotFoundError | Some t \<Rightarrow> Inr t))"

definition load_price_data :: "lib \<Rightarrow> frame option \<Rightarrow> frame option \<Rightarrow> error + frame" where
  "load_price_data L disk file =
     (case read_csv disk file of
        Inl e \<Rightarrow> Inl e
      | Inr df \<Rightarrow>
          if \<not> {''Date'', ''Price''} \<subseteq> set (column_names df)
          then Inl (ValueError missing_columns_msg)
          else (case to_datetime (parse_datetime L) (the (getitem df ''Date'')) of
                  Inl e \<Rightarrow> Inl e
                | Inr ts \<Rightarrow>
                    (case sort_values (argsort L) ts (setitem df ''Date'' (map Stamp ts)) of
                       Inl e \<Rightarrow> Inl e
                     | Inr sorted_df \<Rightarrow> Inr (reset_index sorted_df))))"

section \<open>prepare_features\<close>

text \<open>
  DataFrames are objects that functions receive by reference, so the helpers that take a
  DataFrame work on a store: a list of frames, an object's address being its position.
  A new object is appended; nothing is ever freed during a run.
\<close>

type_synonym heap = "frame list"

definition alloc :: "heap \<Rightarrow> frame \<Rightarrow> nat \<times> heap" where
  "alloc h df = (length h, h @ [df])"

text \<open>\<^verbatim>\<open>df.copy()\<close>: a new object with the same contents.\<close>

definition df_copy :: "heap \<Rightarrow> nat \<Rightarrow> nat \<times> heap" where
  "df_copy h a = alloc h (h ! a)"

text \<open>
  \<^verbatim>\<open>df["Date"].map(datetime.toordinal)\<close>: \<^verbatim>\<open>TypeError\<close> when the column does not hold
  timestamps.
\<close>

definition map_toordinal :: "cell list \<Rightarrow> error + int list" where
  "map_toordinal cs =
     (case as_stamps cs of
        None \<Rightarrow> Inl (TypeError ''descriptor 'toordinal' requires a 'datetime.date' object'')
      | Some ts \<Rightarrow> Inr (map toordinal ts))"

text \<open>
  \<^verbatim>\<open>prepare_features(df)\<close>, lines 108-113. The local name \<^verbatim>\<open>df\<close> is rebound to the copy
  \<open>c\<close>, the new column is stored into the copy, and \<open>X\<close> is the one-column matrix of the
  ordinals just stored, \<open>y\<close> the \<^verbatim>\<open>Price\<close> column.
\<close>

definition prepare_features :: "heap \<Rightarrow> nat \<Rightarrow> error + ((int list list \<times> cell list) \<times> heap)" where
  "prepare_features h df =
     (let (c, h1) = df_copy h df in
      case getitem (h1 ! c) ''Date'' of
        None \<Rightarrow> Inl (KeyError ''Date'')
      | Some dates \<Rightarrow>
          (case map_toordinal dates of
             Inl e \<Rightarrow> Inl e
           | Inr ords \<Rightarrow>
               (let h2 = h1[c := setitem (h1 ! c) ''Date_ordinal'' (map IntV ords)] in
                case getitem (h2 ! c) ''Price'' of
                  None \<Rightarrow> Inl (KeyError ''Price'')
                | Some y \<Rightarrow> Inr ((map (\<lambda>d. [d]) ords, y), h2))))"

section \<open>train_model\<close>

subsection \<open>TimeSeriesSplit\<close>

text \<open>
  \<^verbatim>\<open>range(start, stop, step)\<close> for a positive step.
\<close>

definition range_step :: "nat \<Rightarrow> nat \<Rightarrow> nat \<Rightarrow> nat list" where
  "range_step start stop step = map (\<lambda>j. start + j * step) [0..<(stop - start + step - 1) div step]"

text \<open>
  \<^verbatim>\<open>TimeSeriesSplit(n_splits=k).split(X)\<close> of scikit-learn on \<open>n\<close> samples, with the defaults
  \<^verbatim>\<open>gap=0\<close>, \<^verbatim>\<open>test_size=None\<close>, \<^verbatim>\<open>max_train_size=None\<close> that \<^verbatim>\<open>train_model\<close> leaves:
  \<^verbatim>\<open>test_size = n // (k + 1)\<close>, the test blocks start at
  \<^verbatim>\<open>range(n - k * test_size, n, test_size)\<close>, and a fold is
  \<^verbatim>\<open>(indices[:test_start], indices[test_start : test_start + test_size])\<close>.
\<close>

definition too_few_samples_msg :: string where
  "too_few_samples_msg = ''Cannot have number of folds greater than the number of samples.''"

definition time_series_split :: "nat \<Rightarrow> nat \<Rightarrow> error + (nat list \<times> nat list) list" where
  "time_series_split k n =
     (let n_folds = k + 1;
          test_size = n div n_folds
      in if n_folds > n
         then Inl (ValueError too_few_samples_msg)
         else if int n - int (test_size * k) \<le> 0
         then Inl (ValueError ''Too many splits for number of samples'')
         else Inr (map (\<lambda>test_start. ([0..<test_start], [test_start..<min n (test_start + test_size)]))
                       (range_step (n - k * test_size) n test_size)))"

subsection \<open>GridSearchCV\<close>

text \<open>
  The grid of \<^verbatim>\<open>train_model\<close>. \<^verbatim>\<open>ParameterGrid\<close> sorts the keys (\<^verbatim>\<open>C\<close>, \<^verbatim>\<open>gamma\<close>,
  \<^verbatim>\<open>kernel\<close>) and iterates their product with the last key varying fastest.
\<close>

definition param_grid :: "svr_params list" where
  "param_grid =
     [\<lparr>C = c, gamma = g, kernel = k\<rparr>. c \<leftarrow> [1, 10, 100], g \<leftarrow> [1 / 1000, 1 / 100, 1 / 10], k \<leftarrow> [''rbf'']]"

text \<open>A target value as a float; a string or a timestamp is not one.\<close>

fun as_float :: "cell \<Rightarrow> real option" where
  "as_float (Num r) = Some r"
| "as_float (IntV i) = Some (real_of_int i)"
| "as_float _ = None"

definition mean :: "real list \<Rightarrow> real" where
  "mean xs = sum_list xs / real (length xs)"

text \<open>The scorer \<^verbatim>\<open>neg_mean_squared_error\<close>: greater is better.\<close>

definition neg_mean_squared_error :: "real list \<Rightarrow> real list \<Rightarrow> real" where
  "neg_mean_squared_error y_true y_pred = - mean (map (\<lambda>(t, p). (t - p)\<^sup>2) (zip y_true y_pred))"

text \<open>\<^verbatim>\<open>X[idx]\<close>: the samples at the given positions.\<close>

definition select :: "'a list \<Rightarrow> nat list \<Rightarrow> 'a list" where
  "select xs idx = map (\<lambda>i. xs ! i) idx"

text \<open>One (candidate, fold) pair: fit on the training samples, score on the test samples.\<close>

definition fit_and_score ::
  "(svr_params \<Rightarrow> int list list \<Rightarrow> real list \<Rightarrow> model) \<Rightarrow> int list list \<Rightarrow> real list \<Rightarrow>
   svr_params \<Rightarrow> nat list \<times> nat list \<Rightarrow> real" where
  "fit_and_score fit X y p fd =
     (let m = fit p (select X (fst fd)) (select y (fst fd))
      in neg_mean_squared_error (select y (snd fd)) (map m (select X (snd fd))))"

definition mean_test_score ::
  "(svr_params \<Rightarrow> int list list \<Rightarrow> real list \<Rightarrow> model) \<Rightarrow> int list list \<Rightarrow> real list \<Rightarrow>
   (nat list \<times> nat list) list \<Rightarrow> svr_params \<Rightarrow> real" where
  "mean_test_score fit X y folds p = mean (map (fit_and_score fit X y p) folds)"

text \<open>
  \<^verbatim>\<open>rank_test_score = rankdata(-mean_test_score, method="min")\<close>: one more than the number
  of candidates with a strictly greater mean score. \<^verbatim>\<open>best_index_\<close> is its \<^verbatim>\<open>argmin()\<close>,
  the first position of the least rank.
\<close>

definition rank_test_score :: "real list \<Rightarrow> nat list" where
  "rank_test_score ms = map (\<lambda>m. 1 + length (filter (\<lambda>m'. m < m') ms)) ms"

definition argmin :: "nat list \<Rightarrow> nat" where
  "argmin rs = length (takeWhile (\<lambda>r. min_list rs < r) rs)"

record grid_search =
  best_index :: nat
  best_params :: svr_params
  best_score :: real
  best_estimator :: model

text \<open>
  \<^verbatim>\<open>GridSearchCV(SVR(), grid, cv=TimeSeriesSplit(k), scoring="neg_mean_squared_error").fit(X, y)\<close>
  with \<^verbatim>\<open>refit=True\<close>: every candidate is scored on every fold, the candidate of the best
  rank is refitted on all samples. A target that is not numeric makes every fit fail,
  which \<^verbatim>\<open>fit\<close> reports as a \<^verbatim>\<open>ValueError\<close>.
\<close>

definition grid_search_fit ::
  "(svr_params \<Rightarrow> int list list \<Rightarrow> real list \<Rightarrow> model) \<Rightarrow> svr_params list \<Rightarrow> nat \<Rightarrow>
   int list list \<Rightarrow> cell list \<Rightarrow> error + grid_search" where
  "grid_search_fit fit grid k X y =
     (if length X \<noteq> length y
      then Inl (ValueError ''Found input variables with inconsistent numbers of samples'')
      else if grid = [] then Inl (ValueError ''No fits were performed.'')
      else (case time_series_split k (length X) of
              Inl e \<Rightarrow> Inl e
            | Inr folds \<Rightarrow>
                (case those (map as_float y) of
                   None \<Rightarrow> Inl (ValueError ''All the fits failed.'')
                 | Some yf \<Rightarrow>
                     (let means = map (mean_test_score fit X yf folds) grid;
                          i = argmin (rank_test_score means)
                      in Inr \<lparr>best_index = i,
                              best_params = grid ! i,
                              best_score = means ! i,
                              best_estimator = fit (grid ! i) X yf\<rparr>))))"

text \<open>\<^verbatim>\<open>train_model(X, y)\<close>, lines 117-140.\<close>

definition train_model ::
  "(svr_params \<Rightarrow> int list list \<Rightarrow> real list \<Rightarrow> model) \<Rightarrow> int list list \<Rightarrow> cell list \<Rightarrow>
   error + (model \<times> real \<times> svr_params)" where
  "train_model fit X y =
     (case grid_search_fit fit param_grid 5 X y of
        Inl e \<Rightarrow> Inl e
      | Inr gs \<Rightarrow> Inr (best_estimator gs, sqrt (- best_score gs), best_params gs))"

section \<open>make_forecast\<close>

text \<open>\<^verbatim>\<open>df["Date"].max()\<close>: the greatest timestamp, none for an empty column.\<close>

fun series_max :: "timestamp list \<Rightarrow> timestamp option" where
  "series_max [] = None"
| "series_max (t # ts) = Some (fold max ts t)"

text \<open>
  \<^verbatim>\<open>timedelta(days=i)\<close> is \<^verbatim>\<open>pd.Timedelta(days=i)\<close>, which raises when \<open>i\<close> days are more
  than a time difference can hold. \<^verbatim>\<open>last_date + timedelta(days=i)\<close> raises when the sum is
  no timestamp; \<^verbatim>\<open>NaT\<close> (\<open>None\<close>) plus any difference is \<^verbatim>\<open>NaT\<close>.
\<close>

definition pd_Timedelta :: "int \<Rightarrow> error + int" where
  "pd_Timedelta days =
     (if in_bounds (timedelta days) then Inr (timedelta days) else Inl OutOfBoundsTimedelta)"

definition timestamp_add :: "timestamp option \<Rightarrow> int \<Rightarrow> error + timestamp option" where
  "timestamp_add t d =
     (case t of
        None \<Rightarrow> Inr None
      | Some s \<Rightarrow> if in_bounds (s + d) then Inr (Some (s + d)) else Inl OutOfBoundsDatetime)"

text \<open>
  \<^verbatim>\<open>[last_date + timedelta(days=i) for i in range(1, horizon + 1)]\<close> over the day offsets
  \<open>days\<close>, element by element: the first offset that cannot be added ends the list
  comprehension with its exception.
\<close>

fun future_dates_from :: "timestamp option \<Rightarrow> int list \<Rightarrow> error + timestamp option list" where
  "future_dates_from last_date [] = Inr []"
| "future_dates_from last_date (i # days) =
     (case pd_Timedelta i of
        Inl e \<Rightarrow> Inl e
      | Inr d \<Rightarrow>
          (case timestamp_add last_date d of
             Inl e \<Rightarrow> Inl e
           | Inr t \<Rightarrow>
               (case future_dates_from last_date days of
                  Inl e \<Rightarrow> Inl e
                | Inr ts \<Rightarrow> Inr (t # ts))))"

text \<open>
  Lines 144-145. With no offset nothing is added. Otherwise the addition is a
  \<^verbatim>\<open>TypeError\<close> on a column that does not hold timestamps; on an empty column the maximum
  is \<^verbatim>\<open>NaT\<close>.
\<close>

definition future_dates_of :: "cell list \<Rightarrow> int list \<Rightarrow> error + timestamp option list" where
  "future_dates_of col days =
     (if days = [] then Inr []
      else (case as_stamps col of
              None \<Rightarrow> Inl (TypeError ''unsupported operand type(s) for +'')
            | Some ts \<Rightarrow> future_dates_from (series_max ts) days))"

text \<open>
  \<^verbatim>\<open>[[d.toordinal()] for d in future_dates]\<close>, line 146: \<^verbatim>\<open>NaT.toordinal()\<close> raises
  \<^verbatim>\<open>ValueError\<close>. The result pairs the dates with their feature rows.
\<close>

definition future_ordinals :: "timestamp option list \<Rightarrow> error + (timestamp list \<times> int list list)" where
  "future_ordinals ds =
     (case those ds of
        None \<Rightarrow> Inl (ValueError ''NaTType does not support toordinal'')
      | Some ts \<Rightarrow> Inr (ts, map (\<lambda>d. [toordinal d]) ts))"

text \<open>
  \<^verbatim>\<open>model.predict(X)\<close>: one value per row; scikit-learn refuses an array of no rows.
\<close>

definition predict :: "model \<Rightarrow> int list list \<Rightarrow> error + real list" where
  "predict m X =
     (if X = [] then Inl (ValueError ''Found array with 0 sample(s)'') else Inr (map m X))"

text \<open>
  \<^verbatim>\<open>make_forecast(model, df, horizon)\<close>, lines 143-155: \<^verbatim>\<open>range(1, horizon + 1)\<close> is
  \<open>[1..horizon]\<close>. The forecast frame is a new object; the function returns its address.
\<close>

definition make_forecast :: "model \<Rightarrow> heap \<Rightarrow> nat \<Rightarrow> int \<Rightarrow> error + (nat \<times> heap)" where
  "make_forecast m h df horizon =
     (case getitem (h ! df) ''Date'' of
        None \<Rightarrow> Inl (KeyError ''Date'')
      | Some col \<Rightarrow>
          (case future_dates_of col [1..horizon] of
             Inl e \<Rightarrow> Inl e
           | Inr ds \<Rightarrow>
               (case future_ordinals ds of
                  Inl e \<Rightarrow> Inl e
                | Inr (future_dates, X) \<Rightarrow>
                    (case predict m X of
                       Inl e \<Rightarrow> Inl e
                     | Inr preds \<Rightarrow>
                         Inr (alloc h \<lparr>df_index = [0..<length future_dates],
                                       df_columns = [(''Date'', map Stamp future_dates),
                                                     (''Predicted Price'', map Num preds)]\<rparr>)))))"

section \<open>The Streamlit caches and one run of the script\<close>

text \<open>
  \<^verbatim>\<open>@st.cache_data\<close> on \<^verbatim>\<open>load_price_data\<close> (line 92) and \<^verbatim>\<open>@st.cache_resource\<close> on
  \<^verbatim>\<open>train_model\<close> (line 116) memoise the two functions for the life of the server
  process: the key is the hash of the arguments, a hit returns the stored value without
  running the body, a miss runs the body and stores what it returns; an exception is
  not stored. The key of \<^verbatim>\<open>load_price_data\<close> is its argument \<^verbatim>\<open>file\<close> alone.
\<close>

record caches =
  data_cache :: "frame option \<rightharpoonup> frame"
  resource_cache :: "(int list list \<times> cell list) \<rightharpoonup> (model \<times> real \<times> svr_params)"

definition empty_caches :: caches where
  "empty_caches = \<lparr>data_cache = Map.empty, resource_cache = Map.empty\<rparr>"

definition cached_load_price_data ::
  "lib \<Rightarrow> frame option \<Rightarrow> caches \<Rightarrow> frame option \<Rightarrow> (error + frame) \<times> caches" where
  "cached_load_price_data L disk cs file =
     (case data_cache cs file of
        Some df \<Rightarrow> (Inr df, cs)
      | None \<Rightarrow>
          (case load_price_data L disk file of
             Inl e \<Rightarrow> (Inl e, cs)
           | Inr df \<Rightarrow> (Inr df, cs\<lparr>data_cache := (data_cache cs)(file \<mapsto> df)\<rparr>)))"

definition cached_train_model ::
  "lib \<Rightarrow> caches \<Rightarrow> int list list \<Rightarrow> cell list \<Rightarrow> (error + (model \<times> real \<times> svr_params)) \<times> caches" where
  "cached_train_model L cs X y =
     (case resource_cache cs (X, y) of
        Some r \<Rightarrow> (Inr r, cs)
      | None \<Rightarrow>
          (case train_model (svr_fit L) X y of
             Inl e \<Rightarrow> (Inl e, cs)
           | Inr r \<Rightarrow> (Inr r, cs\<lparr>resource_cache := (resource_cache cs)((X, y) \<mapsto> r)\<rparr>)))"

text \<open>
  What a successful run hands to the page: the RMSE metric, the best parameters, the
  forecast table, and the historical frame \<^verbatim>\<open>df_prices\<close> that \<^verbatim>\<open>create_plot\<close> draws.
\<close>

record outputs =
  shown_rmse :: real
  shown_params :: svr_params
  shown_forecast :: frame
  plotted_history :: frame

text \<open>
  The body of \<^verbatim>\<open>if run_clicked:\<close>, lines 383-421, for the uploaded file \<open>file\<close> and the
  slider value \<open>horizon\<close>. The first exception ends the run (the \<^verbatim>\<open>except\<close> clauses only
  display it). \<^verbatim>\<open>df_prices\<close> is the first object of the run's store.
\<close>

definition run_prediction ::
  "lib \<Rightarrow> frame option \<Rightarrow> caches \<Rightarrow> frame option \<Rightarrow> int \<Rightarrow> (error + outputs) \<times> caches" where
  "run_prediction L disk cs file horizon =
     (case cached_load_price_data L disk cs file of
        (Inl e, cs1) \<Rightarrow> (Inl e, cs1)
      | (Inr loaded, cs1) \<Rightarrow>
          (let (df_prices, h0) = alloc [] loaded in
           case prepare_features h0 df_prices of
             Inl e \<Rightarrow> (Inl e, cs1)
           | Inr ((X, y), h1) \<Rightarrow>
               (case cached_train_model L cs1 X y of
                  (Inl e, cs2) \<Rightarrow> (Inl e, cs2)
                | (Inr (m, rmse, best), cs2) \<Rightarrow>
                    (case make_forecast m h1 df_prices horizon of
                       Inl e \<Rightarrow> (Inl e, cs2)
                     | Inr (fc, h2) \<Rightarrow>
                         (Inr \<lparr>shown_rmse = rmse,
                               shown_params = best,
                               shown_forecast = h2 ! fc,
                               plotted_history = h2 ! df_prices\<rparr>, cs2)))))"

section \<open>NumPy's quicksort argsort\<close>

text \<open>
  \<^verbatim>\<open>sort_values\<close> is called without \<^verbatim>\<open>kind\<close>, so the indexer of the \<^verbatim>\<open>Date\<close> column is
  \<^verbatim>\<open>ndarray.argsort(kind='quicksort')\<close> on its \<^verbatim>\<open>datetime64\<close> values. This section is a
  model of that routine, NumPy's \<^verbatim>\<open>aquicksort\<close> (\<^verbatim>\<open>npysort/quicksort.cpp\<close>), to have a
  concrete value for the parameter \<open>argsort\<close>: an introsort on the index array \<open>t\<close> over the
  keys \<open>v\<close> with median-of-three partitioning, insertion sort for ranges of at most 17
  elements (\<^verbatim>\<open>SMALL_QUICKSORT = 16\<close>), and heapsort once the depth limit
  \<open>2 * floor(log2 n)\<close> is used up.
\<close>

text \<open>\<^verbatim>\<open>INTP_SWAP(t[i], t[j])\<close>.\<close>

definition swap_at :: "nat \<Rightarrow> nat \<Rightarrow> nat list \<Rightarrow> nat list" where
  "swap_at i j t = t[i := t ! j, j := t ! i]"

text \<open>
  The two scans of the partition loop, \<^verbatim>\<open>do ++pi; while (v[*pi] < vp)\<close> and
  \<^verbatim>\<open>do --pj; while (vp < v[*pj])\<close>. The C loops test no bound: the pivot stored at \<open>pr - 1\<close>
  stops the first and the median-of-three minimum at \<open>pl\<close> stops the second. The model
  stops at these two positions explicitly.
\<close>

function scan_up :: "timestamp list \<Rightarrow> nat list \<Rightarrow> timestamp \<Rightarrow> nat \<Rightarrow> nat \<Rightarrow> nat" where
  "scan_up v t vp stop i =
     (if Suc i < stop \<and> v ! (t ! Suc i) < vp then scan_up v t vp stop (Suc i) else Suc i)"
  by pat_completeness auto
termination
  by (relation "measure (\<lambda>(v, t, vp, stop, i). stop - i)") auto

function scan_down :: "timestamp list \<Rightarrow> nat list \<Rightarrow> timestamp \<Rightarrow> nat \<Rightarrow> nat \<Rightarrow> nat" where
  "scan_down v t vp stop j =
     (if stop < j - 1 \<and> vp < v ! (t ! (j - 1)) then scan_down v t vp stop (j - 1) else j - 1)"
  by pat_completeness auto
termination
  by (relation "measure (\<lambda>(v, t, vp, stop, j). j)") auto

declare scan_up.simps [simp del] scan_down.simps [simp del]

lemma scan_up_gt: "i < scan_up v t vp stop i"
  by (induction v t vp stop i rule: scan_up.induct) (subst scan_up.simps, auto)

lemma scan_up_le: "Suc i \<le> stop \<Longrightarrow> scan_up v t vp stop i \<le> stop"
  by (induction v t vp stop i rule: scan_up.induct) (subst scan_up.simps, auto)

lemma scan_down_le: "scan_down v t vp stop j \<le> j"
  by (induction v t vp stop j rule: scan_down.induct) (subst scan_down.simps, auto)

text \<open>The loop \<^verbatim>\<open>for (;;) { scan up; scan down; if (pi >= pj) break; swap }\<close>.\<close>

function hoare_loop ::
  "timestamp list \<Rightarrow> timestamp \<Rightarrow> nat \<Rightarrow> nat \<Rightarrow> nat list \<Rightarrow> nat \<Rightarrow> nat \<Rightarrow> nat list \<times> nat" where
  "hoare_loop v vp pl pr t i j =
     (let i' = scan_up v t vp (pr - 1) i;
          j' = scan_down v t vp pl j
      in if i' \<ge> j' then (t, i') else hoare_loop v vp pl pr (swap_at i' j' t) i' j')"
  by pat_completeness auto
termination
proof (relation "measure (\<lambda>(v, vp, pl, pr, t, i, j). j - i)", goal_cases)
  case 1
  then show ?case by simp
next
  case (2 v vp pl pr t i j i' j')
  have "i < i'" using 2 scan_up_gt by simp
  moreover have "j' \<le> j" using 2 scan_down_le by simp
  ultimately show ?case using 2 by simp
qed

declare hoare_loop.simps [simp del]

text \<open>
  One partition step on the range \<open>pl..pr\<close>: the median of three goes to \<open>pm\<close>, is parked
  at \<open>pr - 1\<close>, and ends at the returned position.
\<close>

definition aquicksort_partition :: "timestamp list \<Rightarrow> nat list \<Rightarrow> nat \<Rightarrow> nat \<Rightarrow> nat list \<times> nat" where
  "aquicksort_partition v t pl pr =
     (let pm = pl + (pr - pl) div 2;
          t1 = (if v ! (t ! pm) < v ! (t ! pl) then swap_at pm pl t else t);
          t2 = (if v ! (t1 ! pr) < v ! (t1 ! pm) then swap_at pr pm t1 else t1);
          t3 = (if v ! (t2 ! pm) < v ! (t2 ! pl) then swap_at pm pl t2 else t2);
          vp = v ! (t3 ! pm);
          t4 = swap_at pm (pr - 1) t3;
          (t5, i) = hoare_loop v vp pl pr t4 pl (pr - 1)
      in (swap_at i (pr - 1) t5, i))"

text \<open>
  The insertion sort of a small range: \<^verbatim>\<open>while (pj > pl && v[vi] < v[*pk]) *pj-- = *pk--;\<close>
  then \<^verbatim>\<open>*pj = vi\<close>, for every \<open>pi\<close> from \<open>pl + 1\<close> to \<open>pr\<close>.
\<close>

function ins_shift :: "timestamp list \<Rightarrow> nat \<Rightarrow> nat \<Rightarrow> nat list \<Rightarrow> nat \<Rightarrow> nat list" where
  "ins_shift v vi pl t j =
     (if pl < j \<and> v ! vi < v ! (t ! (j - 1)) then ins_shift v vi pl (t[j := t ! (j - 1)]) (j - 1)
      else t[j := vi])"
  by pat_completeness auto
termination
  by (relation "measure (\<lambda>(v, vi, pl, t, j). j)") auto

declare ins_shift.simps [simp del]

definition insertion_range :: "timestamp list \<Rightarrow> nat \<Rightarrow> nat \<Rightarrow> nat list \<Rightarrow> nat list" where
  "insertion_range v pl pr t = fold (\<lambda>i t. ins_shift v (t ! i) pl t i) [Suc pl..<Suc pr] t"

lemma hoare_loop_bounds:
  "i < pr - 1 \<Longrightarrow> j \<le> pr - 1 \<Longrightarrow>
   i < snd (hoare_loop v vp pl pr t i j) \<and> snd (hoare_loop v vp pl pr t i j) \<le> pr - 1"
proof (induction v vp pl pr t i j rule: hoare_loop.induct)
  case (1 v vp pl pr t i j)
  let ?i = "scan_up v t vp (pr - 1) i" and ?j = "scan_down v t vp pl j"
  have gt: "i < ?i" by (rule scan_up_gt)
  have le: "?i \<le> pr - 1" using "1.prems" by (intro scan_up_le) simp
  have jle: "?j \<le> j" by (rule scan_down_le)
  show ?case
  proof (cases "?i \<ge> ?j")
    case True
    then show ?thesis using gt le by (subst (1 2) hoare_loop.simps) (simp add: Let_def)
  next
    case False
    then have "?i < pr - 1" and "?j \<le> pr - 1" using jle "1.prems" by simp_all
    from "1.IH"[OF refl refl False this] gt False
    show ?thesis by (subst (1 2) hoare_loop.simps) (simp add: Let_def)
  qed
qed

lemma partition_bounds:
  assumes "pl + 1 < pr"
  shows "pl < snd (aquicksort_partition v t pl pr) \<and> snd (aquicksort_partition v t pl pr) \<le> pr - 1"
  unfolding aquicksort_partition_def Let_def split_beta snd_conv
  using assms by (intro hoare_loop_bounds) simp_all

text \<open>
  \<^verbatim>\<open>aheapsort\<close> on the \<open>n\<close> indices from position \<open>b\<close>; the C code's one-based \<^verbatim>\<open>a[k]\<close> is
  \<open>t ! (b + k - 1)\<close>. \<open>sift\<close> is the inner loop that moves \<open>tmp\<close> down from \<open>i\<close>.
\<close>

function sift :: "timestamp list \<Rightarrow> nat \<Rightarrow> nat \<Rightarrow> nat \<Rightarrow> nat list \<Rightarrow> nat \<Rightarrow> nat \<Rightarrow> nat list" where
  "sift v b n tmp t i j =
     (if 0 < j \<and> j \<le> n
      then (let j' = (if j < n \<and> v ! (t ! (b + j - 1)) < v ! (t ! (b + j)) then j + 1 else j)
            in if v ! tmp < v ! (t ! (b + j' - 1))
               then sift v b n tmp (t[b + i - 1 := t ! (b + j' - 1)]) j' (j' + j')
               else t[b + i - 1 := tmp])
      else t[b + i - 1 := tmp])"
  by pat_completeness auto
termination
  by (relation "measure (\<lambda>(v, b, n, tmp, t, i, j). Suc n - j)") (auto split: if_splits)

declare sift.simps [simp del]

definition aheapsort :: "timestamp list \<Rightarrow> nat list \<Rightarrow> nat \<Rightarrow> nat \<Rightarrow> nat list" where
  "aheapsort v t b n =
     (let t1 = fold (\<lambda>l t. sift v b n (t ! (b + l - 1)) t l (2 * l)) (rev [1..<Suc (n div 2)]) t
      in fold (\<lambda>m t. sift v b (m - 1) (t ! (b + m - 1)) (t[b + m - 1 := t ! b]) 1 2)
              (rev [2..<Suc n]) t1)"

text \<open>
  The main loop with its explicit stack. The head of the work list is the range being
  sorted; a range is marked \<open>popped\<close> when the C code reaches it through \<^verbatim>\<open>stack_pop\<close> (or
  at the start), which is where the depth limit is tested. After a partition the smaller
  part is continued with and the larger part is pushed.
\<close>

function aquicksort_run ::
  "timestamp list \<Rightarrow> nat list \<Rightarrow> (nat \<times> nat \<times> int \<times> bool) list \<Rightarrow> nat list" where
  "aquicksort_run v t [] = t"
| "aquicksort_run v t ((pl, pr, cdepth, popped) # stack) =
     (if popped \<and> cdepth < 0 then aquicksort_run v (aheapsort v t pl (pr - pl + 1)) stack
      else if pr - pl > 16
      then (let (t', p) = aquicksort_partition v t pl pr;
                d = cdepth - 1
            in if p - pl < pr - p
               then aquicksort_run v t' ((pl, p - 1, d, False) # (p + 1, pr, d, True) # stack)
               else aquicksort_run v t' ((p + 1, pr, d, False) # (pl, p - 1, d, True) # stack))
      else aquicksort_run v (insertion_range v pl pr t) stack)"
  by pat_completeness auto
termination
proof (relation "measure (\<lambda>(v, t, stack). sum_list (map (\<lambda>(pl, pr, d, f). pr - pl + 1) stack))",
    goal_cases)
  case 1
  then show ?case by simp
next
  case (2 v t pl pr cdepth popped stack)
  then show ?case by simp
next
  case (3 v t pl pr cdepth popped stack x t' p d)
  then have "p = snd (aquicksort_partition v t pl pr)" by (metis snd_conv)
  moreover have "pl + 1 < pr" using 3 by simp
  ultimately have "pl < p \<and> p \<le> pr - 1" using partition_bounds by simp
  then show ?case by simp linarith
next
  case (4 v t pl pr cdepth popped stack x t' p d)
  then have "p = snd (aquicksort_partition v t pl pr)" by (metis snd_conv)
  moreover have "pl + 1 < pr" using 4 by simp
  ultimately have "pl < p \<and> p \<le> pr - 1" using partition_bounds by simp
  then show ?case by simp linarith
next
  case (5 v t pl pr cdepth popped stack)
  then show ?case by simp
qed

declare aquicksort_run.simps [simp del]

text \<open>\<^verbatim>\<open>npy_get_msb\<close>: the position of the highest set bit.\<close>

fun npy_get_msb :: "nat \<Rightarrow> nat" where
  "npy_get_msb n = (if n \<le> 1 then 0 else 1 + npy_get_msb (n div 2))"

declare npy_get_msb.simps [simp del]

definition npy_argsort :: "timestamp list \<Rightarrow> nat list" where
  "npy_argsort v =
     aquicksort_run v [0..<length v] [(0, length v - 1, 2 * int (npy_get_msb (length v)), True)]"

section \<open>The slider, the sorting contract and example data\<close>

text \<open>
  The horizon comes from the sidebar slider of lines 26-32
  (\<^verbatim>\<open>min_value=1, max_value=30, step=1\<close>): the values it can hand to the script.
\<close>

definition prediction_days_slider :: "int \<Rightarrow> bool" where
  "prediction_days_slider days = (1 \<le> days \<and> days \<le> 30)"

text \<open>
  What NumPy promises of \<^verbatim>\<open>argsort\<close> for every \<^verbatim>\<open>kind\<close>: the result is a permutation of the
  positions that puts the keys in ascending order. The order of equal keys is promised only
  for the kinds \<^verbatim>\<open>'stable'\<close> and \<^verbatim>\<open>'mergesort'\<close>, which \<^verbatim>\<open>load_price_data\<close> does not ask for.
\<close>

definition argsort_ok :: "(timestamp list \<Rightarrow> nat list) \<Rightarrow> timestamp list \<Rightarrow> bool" where
  "argsort_ok asort keys =
     (mset (asort keys) = mset [0..<length keys] \<and> sorted (map (\<lambda>i. keys ! i) (asort keys)))"

text \<open>
  When a cache is up to date. An entry for an uploaded file is current when it is the frame
  \<^verbatim>\<open>load_price_data\<close> returns for that file; the entry for no file (key \<^verbatim>\<open>None\<close>) is current
  when it is the frame \<^verbatim>\<open>load_price_data\<close> returns for the bundled file as it is on disk now;
  an entry for \<open>(X, y)\<close> is current when it is what \<^verbatim>\<open>train_model\<close> returns for \<open>(X, y)\<close>.
\<close>

definition uploads_current :: "lib \<Rightarrow> caches \<Rightarrow> bool" where
  "uploads_current L cs =
     (\<forall>f df. data_cache cs (Some f) = Some df \<longrightarrow> load_price_data L None (Some f) = Inr df)"

definition bundled_current :: "lib \<Rightarrow> frame option \<Rightarrow> caches \<Rightarrow> bool" where
  "bundled_current L disk cs =
     (\<forall>df. data_cache cs None = Some df \<longrightarrow> load_price_data L disk None = Inr df)"

definition models_current :: "lib \<Rightarrow> caches \<Rightarrow> bool" where
  "models_current L cs =
     (\<forall>X y r. resource_cache cs (X, y) = Some r \<longrightarrow> train_model (svr_fit L) X y = Inr r)"

text \<open>
  A library instance for the examples: a parser that knows the date strings of the
  examples (as days since 1970-01-01), integer nanoseconds and timestamps; the quicksort
  model above; and, in place of the SVR solver, a regressor that predicts the mean of its
  training targets shrunk by \<open>C / (C + 1)\<close>.
\<close>

definition example_dates :: "(string \<times> int) list" where
  "example_dates =
     [(''2021-01-01'', 18628), (''2021-01-02'', 18629), (''2021-01-03'', 18630),
      (''2021-01-04'', 18631), (''2021-01-05'', 18632), (''2021-01-06'', 18633),
      (''2021-01-07'', 18634), (''2021-01-08'', 18635), (''2021-01-09'', 18636),
      (''2021-01-10'', 18637), (''2021-01-11'', 18638), (''2021-01-12'', 18639),
      (''2021-01-13'', 18640), (''2262-04-09'', 106749), (''2262-04-10'', 106750)]"

definition example_parser :: "cell \<Rightarrow> timestamp option" where
  "example_parser c =
     (case c of
        Text s \<Rightarrow> map_option (\<lambda>d. d * NS_PER_DAY) (map_of example_dates s)
      | IntV n \<Rightarrow> Some n
      | Stamp t \<Rightarrow> Some t
      | Num r \<Rightarrow> None)"

definition shrunk_mean_fit :: "svr_params \<Rightarrow> int list list \<Rightarrow> real list \<Rightarrow> model" where
  "shrunk_mean_fit p X y = (\<lambda>x. mean y * C p / (C p + 1))"

definition example_lib :: lib where
  "example_lib =
     \<lparr>parse_datetime = example_parser, argsort = npy_argsort, svr_fit = shrunk_mean_fit\<rparr>"

text \<open>
  Ten rows out of order, two of them on the same day, with what the stages of a run
  make of them: the parsed dates, the loaded frame, the features and targets, the folds,
  the mean scores of the nine candidates, the refitted model, the forecast of three days
  and the outputs of the run.
\<close>

definition example_csv :: frame where
  "example_csv =
     \<lparr>df_index = [0..<10],
      df_columns =
        [(''Date'', map Text [''2021-01-02'', ''2021-01-01'', ''2021-01-03'', ''2021-01-02'',
                              ''2021-01-05'', ''2021-01-04'', ''2021-01-07'', ''2021-01-06'',
                              ''2021-01-09'', ''2021-01-08'']),
         (''Price'', map Num [102, 100, 104, 103, 108, 106, 112, 110, 116, 114])]\<rparr>"

definition example_stamps :: "timestamp list" where
  "example_stamps =
     [1609545600000000000, 1609459200000000000, 1609632000000000000,
      1609545600000000000, 1609804800000000000, 1609718400000000000,
      1609977600000000000, 1609891200000000000, 1610150400000000000,
      1610064000000000000]"

definition example_loaded :: frame where
  "example_loaded =
     \<lparr>df_index = [0..<10],
      df_columns =
        [(''Date'', map Stamp [1609459200000000000, 1609545600000000000, 1609545600000000000,
                               1609632000000000000, 1609718400000000000, 1609804800000000000,
                               1609891200000000000, 1609977600000000000, 1610064000000000000,
                               1610150400000000000]),
         (''Price'', map Num [100, 102, 103, 104, 106, 108, 110, 112, 114, 116])]\<rparr>"

definition example_X :: "int list list" where
  "example_X = [[737791], [737792], [737792], [737793], [737794],
               [737795], [737796], [737797], [737798], [737799]]"

definition example_y :: "cell list" where
  "example_y = map Num [100, 102, 103, 104, 106, 108, 110, 112, 114, 116]"

definition example_yf :: "real list" where
  "example_yf = [100, 102, 103, 104, 106, 108, 110, 112, 114, 116]"

definition example_folds :: "(nat list \<times> nat list) list" where
  "example_folds = [([0, 1, 2, 3, 4], [5]),
                    ([0, 1, 2, 3, 4, 5], [6]),
                    ([0, 1, 2, 3, 4, 5, 6], [7]),
                    ([0, 1, 2, 3, 4, 5, 6, 7], [8]),
                    ([0, 1, 2, 3, 4, 5, 6, 7, 8], [9])]"

definition example_means :: "real list" where
  "example_means =
     [- (18087139513 / 5080320), - (18087139513 / 5080320), - (18087139513 / 5080320),
      - (2184506285 / 7683984), - (2184506285 / 7683984), - (2184506285 / 7683984),
      - (11539195757 / 161951076), - (11539195757 / 161951076), - (11539195757 / 161951076)]"

definition example_best :: svr_params where
  "example_best = \<lparr>C = 100, gamma = 1 / 1000, kernel = ''rbf''\<rparr>"

definition example_model :: model where
  "example_model = shrunk_mean_fit example_best example_X example_yf"

definition example_forecast :: frame where
  "example_forecast =
     \<lparr>df_index = [0..<3],
      df_columns =
        [(''Date'', map Stamp [1610236800000000000, 1610323200000000000, 1610409600000000000]),
         (''Predicted Price'', map Num [10750 / 101, 10750 / 101, 10750 / 101])]\<rparr>"

definition example_outputs :: outputs where
  "example_outputs =
     \<lparr>shown_rmse = sqrt (11539195757 / 161951076), shown_params = example_best,
      shown_forecast = example_forecast, plotted_history = example_loaded\<rparr>"

text \<open>The caches after that run, for the table uploaded and for the table as the bundled file.\<close>

definition example_caches :: caches where
  "example_caches =
     \<lparr>data_cache = [Some example_csv \<mapsto> example_loaded],
      resource_cache = [(example_X, example_y) \<mapsto> (example_model, shown_rmse example_outputs, example_best)]\<rparr>"

definition bundled_caches :: caches where
  "bundled_caches =
     \<lparr>data_cache = [None \<mapsto> example_loaded],
      resource_cache = [(example_X, example_y) \<mapsto> (example_model, shown_rmse example_outputs, example_best)]\<rparr>"

text \<open>A later state of the bundled file: ten other rows, one day more.\<close>

definition updated_csv :: frame where
  "updated_csv =
     \<lparr>df_index = [0..<10],
      df_columns =
        [(''Date'', map Text [''2021-01-01'', ''2021-01-02'', ''2021-01-03'', ''2021-01-04'',
                              ''2021-01-05'', ''2021-01-06'', ''2021-01-07'', ''2021-01-08'',
                              ''2021-01-09'', ''2021-01-10'']),
         (''Price'', map Num [200, 202, 203, 204, 206, 208, 210, 212, 214, 216])]\<rparr>"

definition updated_loaded :: frame where
  "updated_loaded =
     \<lparr>df_index = [0..<10],
      df_columns =
        [(''Date'', map Stamp [1609459200000000000, 1609545600000000000, 1609632000000000000,
                               1609718400000000000, 1609804800000000000, 1609891200000000000,
                               1609977600000000000, 1610064000000000000, 1610150400000000000,
                               1610236800000000000]),
         (''Price'', map Num [200, 202, 203, 204, 206, 208, 210, 212, 214, 216])]\<rparr>"

definition updated_X :: "int list list" where
  "updated_X = [[737791], [737792], [737793], [737794], [737795],
               [737796], [737797], [737798], [737799], [737800]]"

definition updated_y :: "cell list" where
  "updated_y = map Num [200, 202, 203, 204, 206, 208, 210, 212, 214, 216]"

definition updated_yf :: "real list" where
  "updated_yf = [200, 202, 203, 204, 206, 208, 210, 212, 214, 216]"

definition updated_means :: "real list" where
  "updated_means =
     [- (61080456313 / 5080320), - (61080456313 / 5080320), - (61080456313 / 5080320),
      - (5163398285 / 7683984), - (5163398285 / 7683984), - (5163398285 / 7683984),
      - (14356984157 / 161951076), - (14356984157 / 161951076), - (14356984157 / 161951076)]"

definition updated_model :: model where
  "updated_model = shrunk_mean_fit example_best updated_X updated_yf"

definition updated_forecast :: frame where
  "updated_forecast =
     \<lparr>df_index = [0..<3],
      df_columns =
        [(''Date'', map Stamp [1610323200000000000, 1610409600000000000, 1610496000000000000]),
         (''Predicted Price'', map Num [20750 / 101, 20750 / 101, 20750 / 101])]\<rparr>"

definition updated_outputs :: outputs where
  "updated_outputs =
     \<lparr>shown_rmse = sqrt (14356984157 / 161951076), shown_params = example_best,
      shown_forecast = updated_forecast, plotted_history = updated_loaded\<rparr>"


text \<open>Two rows that end one day before the day of the greatest timestamp, and the frame loaded.\<close>

definition late_csv :: frame where
  "late_csv =
     \<lparr>df_index = [0..<2],
      df_columns = [(''Date'', map Text [''2262-04-09'', ''2262-04-10'']),
                    (''Price'', map Num [100, 102])]\<rparr>"

definition late_loaded :: frame where
  "late_loaded =
     \<lparr>df_index = [0..<2],
      df_columns = [(''Date'', map Stamp [9223113600000000000, 9223200000000000000]),
                    (''Price'', map Num [100, 102])]\<rparr>"

text \<open>A table without the \<^verbatim>\<open>Price\<close> column, and a table of the two columns and no row.\<close>

definition no_price_csv :: frame where
  "no_price_csv =
     \<lparr>df_index = [0..<2],
      df_columns = [(''Date'', map Text [''2021-01-01'', ''2021-01-02'']),
                    (''Close'', map Num [100, 102])]\<rparr>"

definition header_only_csv :: frame where
  "header_only_csv = \<lparr>df_index = [], df_columns = [(''Date'', []), (''Price'', [])]\<rparr>"

section \<open>The temporal splitter\<close>

lemma range_step_five:
  assumes "1 \<le> t" and "s + 5 * t = n"
  shows "range_step s n t = map (\<lambda>j. s + j * t) [0..<5]"
proof -
  have "n - s + t - 1 = 6 * t - 1" using assms by simp
  moreover have "(6 * t - 1) div t = 5"
    by (rule Euclidean_Rings.div_nat_eqI) (use assms in auto)
  ultimately show ?thesis by (simp add: range_step_def)
qed

lemma time_series_split_explicit:
  assumes "6 \<le> n"
  shows "time_series_split 5 n =
     Inr (map (\<lambda>j. ([0..<n - 5 * (n div 6) + j * (n div 6)],
                     [n - 5 * (n div 6) + j * (n div 6)..<n - 5 * (n div 6) + j * (n div 6) + n div 6]))
              [0..<5])"
proof -
  define t where "t = n div 6"
  define s where "s = n - 5 * t"
  have t1: "1 \<le> t" using assms by (simp add: t_def Suc_le_eq div_greater_zero_iff)
  have le: "5 * t \<le> n" by (simp add: t_def)
  have sn: "s + 5 * t = n" using le by (simp add: s_def)
  have lt: "t * 5 < n" using t1 assms unfolding t_def by simp
  have m: "min n (s + j * t + t) = s + j * t + t" if "j < 5" for j
  proof -
    have "j * t \<le> 4 * t" using that by (intro mult_le_mono1) simp
    then have "s + j * t + t \<le> n" using sn by linarith
    then show ?thesis by (simp add: min_def)
  qed
  have "time_series_split 5 n =
        Inr (map (\<lambda>test_start. ([0..<test_start], [test_start..<min n (test_start + t)]))
                 (range_step s n t))"
    using assms lt by (simp add: time_series_split_def Let_def t_def s_def)
  also have "range_step s n t = map (\<lambda>j. s + j * t) [0..<5]"
    by (rule range_step_five[OF t1 sn])
  finally show ?thesis
    unfolding s_def[symmetric] t_def[symmetric] map_map comp_def
    by (simp add: m cong: map_cong)
qed

lemma Max_interval: "a < b \<Longrightarrow> Max {a..<b::nat} = b - 1"
  by (intro Max_eqI) auto

lemma Min_interval: "a < b \<Longrightarrow> Min {a..<b::nat} = a"
  by (intro Min_eqI) auto

text \<open>
  C2. For every sample count \<open>n\<close> of at least 6, so for every \<open>n \<ge> 2 \<sdot> K = 10\<close>, the splitter
  of \<^verbatim>\<open>train_model\<close> (\<open>K = 5\<close>) returns exactly 5 folds. In every fold the training and the
  validation indices are not empty, the greatest training index is below the least
  validation index, the training indices are exactly the positions before the validation
  block, and the validation block is a contiguous range inside the samples. The blocks
  of later folds lie after the blocks of earlier folds.
\<close>

theorem time_series_split_walk_forward:
  assumes "6 \<le> n"
  shows "\<exists>folds. time_series_split 5 n = Inr folds \<and> length folds = 5 \<and>
           (\<forall>i<5. fst (folds ! i) \<noteq> [] \<and> snd (folds ! i) \<noteq> [] \<and>
                   Max (set (fst (folds ! i))) < Min (set (snd (folds ! i))) \<and>
                   fst (folds ! i) = [0..<Min (set (snd (folds ! i)))] \<and>
                   snd (folds ! i) = [Min (set (snd (folds ! i)))..<Suc (Max (set (snd (folds ! i))))] \<and>
                   Max (set (snd (folds ! i))) < n) \<and>
           (\<forall>i j. i < j \<longrightarrow> j < 5 \<longrightarrow>
                   Max (set (snd (folds ! i))) < Min (set (snd (folds ! j))))"
proof -
  define t where "t = n div 6"
  define s where "s = n - 5 * t"
  define folds where "folds = map (\<lambda>j. ([0..<s + j * t], [s + j * t..<s + j * t + t])) [0..<5]"
  have t1: "1 \<le> t" using assms by (simp add: t_def Suc_le_eq div_greater_zero_iff)
  have le: "5 * t \<le> n" by (simp add: t_def)
  have lt: "5 * t < n" using t1 assms unfolding t_def by simp
  have s1: "1 \<le> s" using lt by (simp add: s_def)
  have sn: "s + 5 * t = n" using le by (simp add: s_def)
  have split: "time_series_split 5 n = Inr folds"
    unfolding folds_def s_def t_def by (rule time_series_split_explicit[OF assms])
  have len: "length folds = 5" by (simp add: folds_def)
  have nth: "folds ! i = ([0..<s + i * t], [s + i * t..<s + i * t + t])" if "i < 5" for i
    using that by (simp add: folds_def del: upt_Suc)
  have mx: "Max (set (snd (folds ! i))) = s + i * t + t - 1" if "i < 5" for i
    using that t1 by (simp add: nth Max_interval)
  have mn: "Min (set (snd (folds ! i))) = s + i * t" if "i < 5" for i
    using that t1 by (simp add: nth Min_interval)
  have each: "fst (folds ! i) \<noteq> [] \<and> snd (folds ! i) \<noteq> [] \<and>
        Max (set (fst (folds ! i))) < Min (set (snd (folds ! i))) \<and>
        fst (folds ! i) = [0..<Min (set (snd (folds ! i)))] \<and>
        snd (folds ! i) = [Min (set (snd (folds ! i)))..<Suc (Max (set (snd (folds ! i))))] \<and>
        Max (set (snd (folds ! i))) < n" if i: "i < 5" for i
  proof -
    have "i * t \<le> 4 * t" using i by (intro mult_le_mono1) simp
    then have "s + i * t + t \<le> n" using sn by linarith
    moreover have "Max (set (fst (folds ! i))) = s + i * t - 1"
      using i s1 by (simp add: nth Max_interval)
    ultimately show ?thesis
      using i s1 t1 by (simp add: mx mn) (simp add: nth)
  qed
  have across: "Max (set (snd (folds ! i))) < Min (set (snd (folds ! j)))"
    if "i < j" "j < 5" for i j
  proof -
    have "Suc i * t \<le> j * t" using that by (intro mult_le_mono1) simp
    then show ?thesis using that t1 by (simp add: mx mn)
  qed
  show ?thesis
    using split len each across by blast
qed

theorem time_series_split_walk_forward_witness:
  "(6::nat) \<le> 10 \<and>
   time_series_split 5 10 =
     Inr [([0, 1, 2, 3, 4], [5]), ([0, 1, 2, 3, 4, 5], [6]), ([0, 1, 2, 3, 4, 5, 6], [7]),
          ([0, 1, 2, 3, 4, 5, 6, 7], [8]), ([0, 1, 2, 3, 4, 5, 6, 7, 8], [9])] \<and>
   (\<exists>folds. time_series_split 5 10 = Inr folds \<and> length folds = 5 \<and>
           (\<forall>i<5. fst (folds ! i) \<noteq> [] \<and> snd (folds ! i) \<noteq> [] \<and>
                   Max (set (fst (folds ! i))) < Min (set (snd (folds ! i))) \<and>
                   fst (folds ! i) = [0..<Min (set (snd (folds ! i)))] \<and>
                   snd (folds ! i) = [Min (set (snd (folds ! i)))..<Suc (Max (set (snd (folds ! i))))] \<and>
                   Max (set (snd (folds ! i))) < 10) \<and>
           (\<forall>i j. i < j \<longrightarrow> j < 5 \<longrightarrow>
                   Max (set (snd (folds ! i))) < Min (set (snd (folds ! j)))))"
proof -
  have h: "(6::nat) \<le> 10" by simp
  have e: "time_series_split 5 10 =
     Inr [([0, 1, 2, 3, 4], [5]), ([0, 1, 2, 3, 4, 5], [6]), ([0, 1, 2, 3, 4, 5, 6], [7]),
          ([0, 1, 2, 3, 4, 5, 6, 7], [8]), ([0, 1, 2, 3, 4, 5, 6, 7, 8], [9])]"
    by (simp add: time_series_split_def range_step_def Let_def upt_rec)
  show ?thesis
    using h e time_series_split_walk_forward[OF h] by blast
qed

text \<open>
  C8. A fold needs a training and a validation sample, so 5 folds need 6 samples. For
  every sample count below 6, for instance 3, the splitter returns no folds but raises
  (a \<^verbatim>\<open>ValueError\<close> is the exception the code has for insufficient data), and
  \<^verbatim>\<open>train_model\<close> on that many samples raises the same error and returns no model.
\<close>

theorem train_model_insufficient_data:
  assumes "n < 6" and "length X = n" and "length y = n"
  shows "time_series_split 5 n = Inl (ValueError too_few_samples_msg) \<and>
         train_model fit X y = Inl (ValueError too_few_samples_msg)"
proof -
  have s: "time_series_split 5 n = Inl (ValueError too_few_samples_msg)"
    using assms(1) by (simp add: time_series_split_def Let_def)
  have g: "param_grid \<noteq> []" by (simp add: param_grid_def)
  show ?thesis
    using s g assms(2,3) by (simp add: train_model_def grid_search_fit_def)
qed

theorem train_model_insufficient_data_witness:
  "(3::nat) < 6 \<and> length [[737791], [737792], [737793::int]] = 3 \<and>
   length [Num 100, Num 102, Num 101] = 3 \<and>
   time_series_split 5 3 = Inl (ValueError too_few_samples_msg) \<and>
   train_model (\<lambda>p X y x. 0) [[737791], [737792], [737793]] [Num 100, Num 102, Num 101]
     = Inl (ValueError too_few_samples_msg)"
  using train_model_insufficient_data
    [of 3 "[[737791], [737792], [737793]]" "[Num 100, Num 102, Num 101]" "\<lambda>p X y x. 0"]
  by simp

section \<open>Loading the price table\<close>

lemma those_length: "those xs = Some ys \<Longrightarrow> length ys = length xs"
  by (induction xs arbitrary: ys) (auto split: option.splits)

lemma those_map_Some: "those (map Some xs) = Some xs"
  by (induction xs) auto

lemma map_of_set_column_same: "map_of (set_column k v cs) k = Some v"
  by (induction cs) auto

lemma map_of_set_column_other: "k' \<noteq> k \<Longrightarrow> map_of (set_column k v cs) k' = map_of cs k'"
  by (induction cs) auto

lemma set_column_lengths:
  "list_all (\<lambda>(name, c). length c = n) cs \<Longrightarrow> length v = n \<Longrightarrow>
   list_all (\<lambda>(name, c). length c = n) (set_column k v cs)"
  by (induction cs) auto

lemma map_of_take_columns:
  "map_of (map (\<lambda>(name, cs). (name, f cs)) cols) k = map_option f (map_of cols k)"
  by (induction cols) auto

lemma wf_column_length:
  "wf_frame df \<Longrightarrow> getitem df name = Some col \<Longrightarrow> length col = nrows df"
  unfolding wf_frame_def getitem_def list_all_iff
  by (auto dest: map_of_SomeD)

lemma to_datetime_length: "to_datetime parse cs = Inr ts \<Longrightarrow> length ts = length cs"
  unfolding to_datetime_def by (auto split: option.splits if_splits dest: those_length)

lemma to_datetime_in_bounds: "to_datetime parse cs = Inr ts \<Longrightarrow> list_all in_bounds ts"
  unfolding to_datetime_def by (auto split: option.splits if_splits)

lemma getitem_some_iff: "(\<exists>col. getitem df name = Some col) \<longleftrightarrow> name \<in> set (column_names df)"
  unfolding getitem_def column_names_def
  using map_of_eq_None_iff[of "df_columns df" name] by auto

lemma load_price_data_unfold:
  assumes "read_csv disk file = Inr raw"
    and "to_datetime (parse_datetime L) (the (getitem raw ''Date'')) = Inr ts"
    and "{''Date'', ''Price''} \<subseteq> set (column_names raw)"
    and "list_all (\<lambda>i. i < nrows raw) (argsort L ts)"
  shows "load_price_data L disk file =
         Inr \<lparr>df_index = [0..<length (argsort L ts)],
              df_columns = map (\<lambda>(name, cs). (name, map (\<lambda>i. cs ! i) (argsort L ts)))
                               (set_column ''Date'' (map Stamp ts) (df_columns raw))\<rparr>"
  using assms
  by (simp add: load_price_data_def sort_values_def take_rows_def reset_index_def setitem_def nrows_def)



lemma argsort_ok_Nil: "argsort_ok asort [] \<Longrightarrow> asort [] = []"
  by (simp add: argsort_ok_def)

lemma as_stamps_Stamp: "as_stamps (map Stamp ts) = Some ts"
  unfolding as_stamps_def by (induction ts) auto

subsection \<open>The example tables, stage by stage\<close>

lemma upt_10: "[0..<10] = [0, 1, 2, 3, 4, 5, 6, 7, 8, 9]"
  by (simp add: upt_rec)

lemma example_keys_sorted: "npy_argsort example_stamps = [1, 0, 3, 2, 5, 4, 7, 6, 9, 8]"
  unfolding example_stamps_def by code_simp


lemma example_load: "load_price_data example_lib disk (Some example_csv) = Inr example_loaded"
  by (simp add: load_price_data_def read_csv_def example_csv_def column_names_def getitem_def
      to_datetime_def example_parser_def example_dates_def NS_PER_DAY_def
      in_bounds_def INT64_MAX_def
      example_lib_def sort_values_def take_rows_def setitem_def nrows_def
      example_keys_sorted[unfolded example_stamps_def] reset_index_def upt_10 example_loaded_def)


lemma bundled_load: "load_price_data example_lib (Some example_csv) None = Inr example_loaded"
  using example_load[of None] by (simp add: load_price_data_def read_csv_def)

lemma updated_keys_sorted:
  "npy_argsort [1609459200000000000, 1609545600000000000, 1609632000000000000,
                1609718400000000000, 1609804800000000000, 1609891200000000000,
                1609977600000000000, 1610064000000000000, 1610150400000000000,
                1610236800000000000]
   = [0, 1, 2, 3, 4, 5, 6, 7, 8, 9]"
  by code_simp

lemma updated_load:
  "load_price_data example_lib (Some updated_csv) None = Inr updated_loaded"
  by (simp add: load_price_data_def read_csv_def updated_csv_def column_names_def getitem_def
      to_datetime_def example_parser_def example_dates_def NS_PER_DAY_def
      in_bounds_def INT64_MAX_def
      example_lib_def sort_values_def take_rows_def setitem_def nrows_def
      updated_keys_sorted reset_index_def upt_10 updated_loaded_def)

lemma example_split: "time_series_split 5 10 = Inr example_folds"
  by (simp add: time_series_split_def range_step_def Let_def upt_rec example_folds_def)

lemma example_grid_6: "param_grid ! 6 = example_best"
  by (simp add: param_grid_def example_best_def)

lemma example_lib_fit: "svr_fit example_lib = shrunk_mean_fit"
  by (simp add: example_lib_def)

lemma example_prepare:
  "prepare_features [example_loaded] 0 =
     Inr ((example_X, example_y),
          [example_loaded,
           setitem example_loaded ''Date_ordinal''
             (map IntV [737791, 737792, 737792, 737793, 737794,
                             737795, 737796, 737797, 737798, 737799])])"
  by (simp add: prepare_features_def df_copy_def alloc_def example_loaded_def getitem_def
      map_toordinal_def as_stamps_def toordinal_def NS_PER_DAY_def setitem_def example_X_def
      example_y_def)

lemma example_mean_scores:
  "map (mean_test_score shrunk_mean_fit example_X example_yf example_folds) param_grid
   = example_means"
  by (simp add: param_grid_def mean_test_score_def fit_and_score_def mean_def select_def
      neg_mean_squared_error_def shrunk_mean_fit_def example_X_def power2_eq_square
      example_folds_def example_yf_def example_means_def)

lemma example_rank: "argmin (rank_test_score example_means) = 6"
  by (simp add: rank_test_score_def argmin_def example_means_def)

lemma example_as_float: "those (map as_float example_y) = Some example_yf"
  by (simp add: example_y_def example_yf_def)

lemma example_train:
  "train_model shrunk_mean_fit example_X example_y
     = Inr (example_model, shown_rmse example_outputs, example_best)"
proof -
  have l: "length example_X = 10" "length example_y = 10"
    by (simp_all add: example_X_def example_y_def)
  have g: "param_grid \<noteq> []" by (simp add: param_grid_def)
  have b: "example_means ! 6 = - (11539195757 / 161951076)" by (simp add: example_means_def)
  show ?thesis
    by (simp add: train_model_def grid_search_fit_def l g example_split example_as_float Let_def
        example_mean_scores example_rank example_grid_6 example_model_def b example_outputs_def)
qed

lemma example_model_value: "example_model x = 10750 / 101"
  by (simp add: example_model_def shrunk_mean_fit_def mean_def example_best_def example_yf_def)

lemma example_make_forecast:
  assumes "h ! 0 = example_loaded"
  shows "make_forecast example_model h 0 3 = Inr (length h, h @ [example_forecast])"
  using assms
  by (simp add: make_forecast_def example_loaded_def getitem_def future_dates_of_def as_stamps_def
      upto_rec1 pd_Timedelta_def timestamp_add_def in_bounds_def INT64_MAX_def future_ordinals_def
      timedelta_def NS_PER_DAY_def predict_def toordinal_def example_model_value alloc_def
      example_forecast_def upt_rec)

lemma updated_prepare:
  "prepare_features [updated_loaded] 0 =
     Inr ((updated_X, updated_y),
          [updated_loaded,
           setitem updated_loaded ''Date_ordinal''
             (map IntV [737791, 737792, 737793, 737794, 737795,
                             737796, 737797, 737798, 737799, 737800])])"
  by (simp add: prepare_features_def df_copy_def alloc_def updated_loaded_def getitem_def
      map_toordinal_def as_stamps_def toordinal_def NS_PER_DAY_def setitem_def updated_X_def
      updated_y_def)

lemma updated_mean_scores:
  "map (mean_test_score shrunk_mean_fit updated_X updated_yf example_folds) param_grid
   = updated_means"
  by (simp add: param_grid_def mean_test_score_def fit_and_score_def mean_def select_def
      neg_mean_squared_error_def shrunk_mean_fit_def updated_X_def power2_eq_square
      example_folds_def updated_yf_def updated_means_def)

lemma updated_rank: "argmin (rank_test_score updated_means) = 6"
  by (simp add: rank_test_score_def argmin_def updated_means_def)

lemma updated_as_float: "those (map as_float updated_y) = Some updated_yf"
  by (simp add: updated_y_def updated_yf_def)

lemma updated_train:
  "train_model shrunk_mean_fit updated_X updated_y
     = Inr (updated_model, shown_rmse updated_outputs, example_best)"
proof -
  have l: "length updated_X = 10" "length updated_y = 10"
    by (simp_all add: updated_X_def updated_y_def)
  have g: "param_grid \<noteq> []" by (simp add: param_grid_def)
  have b: "updated_means ! 6 = - (14356984157 / 161951076)" by (simp add: updated_means_def)
  show ?thesis
    by (simp add: train_model_def grid_search_fit_def l g example_split updated_as_float Let_def
        updated_mean_scores updated_rank example_grid_6 updated_model_def b updated_outputs_def)
qed

lemma updated_model_value: "updated_model x = 20750 / 101"
  by (simp add: updated_model_def shrunk_mean_fit_def mean_def example_best_def updated_yf_def)

lemma updated_make_forecast:
  assumes "h ! 0 = updated_loaded"
  shows "make_forecast updated_model h 0 3 = Inr (length h, h @ [updated_forecast])"
  using assms
  by (simp add: make_forecast_def updated_loaded_def getitem_def future_dates_of_def as_stamps_def
      upto_rec1 pd_Timedelta_def timestamp_add_def in_bounds_def INT64_MAX_def future_ordinals_def
      timedelta_def NS_PER_DAY_def predict_def toordinal_def updated_model_value alloc_def
      updated_forecast_def upt_rec)

lemma example_run:
  "run_prediction example_lib disk empty_caches (Some example_csv) 3
     = (Inr example_outputs, example_caches)"
  by (simp add: run_prediction_def cached_load_price_data_def empty_caches_def example_load
      alloc_def example_prepare cached_train_model_def example_lib_fit example_train
      example_make_forecast example_caches_def)
     (simp add: example_outputs_def)

lemma bundled_run:
  "run_prediction example_lib (Some example_csv) empty_caches None 3
     = (Inr example_outputs, bundled_caches)"
  by (simp add: run_prediction_def cached_load_price_data_def empty_caches_def bundled_load
      alloc_def example_prepare cached_train_model_def example_lib_fit example_train
      example_make_forecast bundled_caches_def)
     (simp add: example_outputs_def)

lemma stale_run:
  "run_prediction example_lib (Some updated_csv) bundled_caches None 3
     = (Inr example_outputs, bundled_caches)"
  by (simp add: run_prediction_def cached_load_price_data_def bundled_caches_def
      alloc_def example_prepare cached_train_model_def example_make_forecast)
     (simp add: example_outputs_def)

lemma fresh_run:
  "fst (run_prediction example_lib (Some updated_csv) empty_caches None 3) = Inr updated_outputs"
  by (simp add: run_prediction_def cached_load_price_data_def empty_caches_def updated_load
      alloc_def updated_prepare cached_train_model_def example_lib_fit updated_train
      updated_make_forecast)
     (simp add: updated_outputs_def)

text \<open>
  C6. When the table read from the input lacks the \<^verbatim>\<open>Date\<close> or the \<^verbatim>\<open>Price\<close> column,
  \<^verbatim>\<open>load_price_data\<close> raises the \<^verbatim>\<open>ValueError\<close> of line 101, the exception the code has for
  a schema error. A run whose cache holds no entry for the file ends with that same error
  and leaves the caches as they were: the error is the whole outcome whatever the
  estimator of the library is, so neither \<^verbatim>\<open>prepare_features\<close> nor a fit is reached.
\<close>

theorem load_price_data_missing_column:
  assumes "read_csv disk file = Inr raw"
    and "''Date'' \<notin> set (column_names raw) \<or> ''Price'' \<notin> set (column_names raw)"
  shows "load_price_data L disk file = Inl (ValueError missing_columns_msg) \<and>
         (data_cache cs file = None \<longrightarrow>
            run_prediction L disk cs file horizon = (Inl (ValueError missing_columns_msg), cs))"
proof -
  have l: "load_price_data L disk file = Inl (ValueError missing_columns_msg)"
    using assms by (auto simp: load_price_data_def)
  then show ?thesis
    by (simp add: run_prediction_def cached_load_price_data_def)
qed

theorem load_price_data_missing_column_witness:
  "read_csv None (Some no_price_csv) = Inr no_price_csv \<and>
   ''Price'' \<notin> set (column_names no_price_csv) \<and>
   data_cache empty_caches (Some no_price_csv) = None \<and>
   load_price_data example_lib None (Some no_price_csv) = Inl (ValueError missing_columns_msg) \<and>
   run_prediction example_lib None empty_caches (Some no_price_csv) 7
     = (Inl (ValueError missing_columns_msg), empty_caches)"
proof -
  have r: "read_csv None (Some no_price_csv) = Inr no_price_csv" by (simp add: read_csv_def)
  have c: "''Price'' \<notin> set (column_names no_price_csv)"
    by (simp add: column_names_def no_price_csv_def)
  have e: "data_cache empty_caches (Some no_price_csv) = None" by (simp add: empty_caches_def)
  from c have "''Date'' \<notin> set (column_names no_price_csv) \<or> ''Price'' \<notin> set (column_names no_price_csv)"
    by simp
  from load_price_data_missing_column[OF r this, of example_lib empty_caches 7] r c e
  show ?thesis by simp
qed

text \<open>
  C7, as amended. \<^verbatim>\<open>load_price_data\<close> has no check for an empty table: for a table with
  both columns and no row it raises nothing and returns the frame of no rows. The run of
  a fresh server process then ends in \<^verbatim>\<open>train_model\<close>, with the splitter's \<^verbatim>\<open>ValueError\<close>.
\<close>

theorem load_price_data_empty_table:
  assumes raw: "read_csv disk file = Inr raw"
    and cols: "{''Date'', ''Price''} \<subseteq> set (column_names raw)"
    and wf: "wf_frame raw" and empty: "nrows raw = 0"
    and ok: "argsort_ok (argsort L) []"
  shows "\<exists>loaded. load_price_data L disk file = Inr loaded \<and> nrows loaded = 0 \<and> rows loaded = [] \<and>
           fst (run_prediction L disk empty_caches file horizon)
             = Inl (ValueError too_few_samples_msg)"
proof -
  obtain dcol where dcol: "getitem raw ''Date'' = Some dcol"
    using cols getitem_some_iff[of raw "''Date''"] by auto
  obtain pcol where pcol: "getitem raw ''Price'' = Some pcol"
    using cols getitem_some_iff[of raw "''Price''"] by auto
  have d0: "dcol = []" using wf_column_length[OF wf dcol] empty by simp
  have p0: "pcol = []" using wf_column_length[OF wf pcol] empty by simp
  have ts: "to_datetime (parse_datetime L) (the (getitem raw ''Date'')) = Inr []"
    by (simp add: dcol d0 to_datetime_def)
  have idx: "argsort L [] = []" using ok by (rule argsort_ok_Nil)
  define loaded where "loaded = \<lparr>df_index = [],
              df_columns = map (\<lambda>(name, cs). (name, map (\<lambda>i. cs ! i) []))
                               (set_column ''Date'' (map Stamp []) (df_columns raw))\<rparr>"
  have load: "load_price_data L disk file = Inr loaded"
    using load_price_data_unfold[OF raw ts cols] idx by (simp add: loaded_def)
  have n0: "nrows loaded = 0" by (simp add: loaded_def nrows_def)
  have r0: "rows loaded = []" by (simp add: rows_def n0)
  have gd: "getitem loaded ''Date'' = Some []"
    by (simp add: loaded_def getitem_def map_of_take_columns map_of_set_column_same)
  have gp: "getitem loaded ''Price'' = Some []"
    using pcol
    by (simp add: loaded_def getitem_def map_of_take_columns map_of_set_column_other)
  have prep: "prepare_features [loaded] 0 =
              Inr (([], []), [loaded, setitem loaded ''Date_ordinal'' []])"
    using gd gp
    by (simp add: prepare_features_def df_copy_def alloc_def map_toordinal_def as_stamps_def
        getitem_def setitem_def map_of_set_column_other)
  have train: "train_model (svr_fit L) [] [] = Inl (ValueError too_few_samples_msg)"
    by (simp add: train_model_def grid_search_fit_def param_grid_def time_series_split_def)
  have "fst (run_prediction L disk empty_caches file horizon) = Inl (ValueError too_few_samples_msg)"
    using load prep train
    by (simp add: run_prediction_def cached_load_price_data_def cached_train_model_def
        empty_caches_def alloc_def)
  then show ?thesis using load n0 r0 by blast
qed

theorem load_price_data_empty_table_witness:
  "read_csv None (Some header_only_csv) = Inr header_only_csv \<and>
   {''Date'', ''Price''} \<subseteq> set (column_names header_only_csv) \<and>
   wf_frame header_only_csv \<and> nrows header_only_csv = 0 \<and>
   argsort_ok (argsort example_lib) [] \<and>
   (\<exists>loaded. load_price_data example_lib None (Some header_only_csv) = Inr loaded \<and>
              nrows loaded = 0 \<and> rows loaded = [] \<and>
              fst (run_prediction example_lib None empty_caches (Some header_only_csv) 7)
                = Inl (ValueError too_few_samples_msg))"
proof -
  have r: "read_csv None (Some header_only_csv) = Inr header_only_csv" by (simp add: read_csv_def)
  have c: "{''Date'', ''Price''} \<subseteq> set (column_names header_only_csv)"
    by (simp add: column_names_def header_only_csv_def)
  have w: "wf_frame header_only_csv" by (simp add: wf_frame_def header_only_csv_def nrows_def)
  have n: "nrows header_only_csv = 0" by (simp add: header_only_csv_def nrows_def)
  have "npy_argsort [] = []" by code_simp
  then have a: "argsort_ok (argsort example_lib) []" by (simp add: argsort_ok_def example_lib_def)
  from load_price_data_empty_table[OF r c w n a, of 7] r c w n a show ?thesis by blast
qed

text \<open>
  C7 as stated fails: on the table with the header and no row \<^verbatim>\<open>load_price_data\<close> returns
  the empty frame instead of raising.
\<close>

theorem load_price_data_empty_table_no_error:
  "load_price_data example_lib None (Some header_only_csv)
     = Inr \<lparr>df_index = [], df_columns = [(''Date'', []), (''Price'', [])]\<rparr>"
proof -
  have "npy_argsort [] = []" by code_simp
  then show ?thesis
    by (simp add: load_price_data_def read_csv_def header_only_csv_def column_names_def
        getitem_def to_datetime_def example_lib_def sort_values_def take_rows_def setitem_def
        nrows_def reset_index_def)
qed







section \<open>The forecast\<close>

lemma series_max_Some:
  assumes "ts \<noteq> []"
  shows "series_max ts = Some (Max (set ts))"
proof (cases ts)
  case Nil
  then show ?thesis using assms by simp
next
  case (Cons a list)
  have "fold max list a = Max (set (a # list))" by (rule Max.set_eq_fold[symmetric])
  then show ?thesis using Cons by simp
qed

lemma upto_as_map: "0 \<le> H \<Longrightarrow> [1..H] = map (\<lambda>i. int i + 1) [0..<nat H]"
proof (induction "nat H" arbitrary: H)
  case 0
  then show ?case by simp
next
  case (Suc k)
  then have H: "H = int k + 1" by linarith
  have "[1..H] = [1..H - 1] @ [H]" using H by (simp add: upto_rec2)
  also have "[1..H - 1] = map (\<lambda>i. int i + 1) [0..<nat (H - 1)]"
    using Suc H by simp
  finally show ?case using Suc.hyps(2)[symmetric] H by simp
qed

lemma timedelta_mono_le: "a \<le> b \<Longrightarrow> timedelta a \<le> timedelta b"
  by (simp add: timedelta_def NS_PER_DAY_def)

lemma future_dates_from_fits:
  assumes "- INT64_MAX \<le> t0"
    and "\<forall>i\<in>set days. 0 \<le> i \<and> timedelta i \<le> INT64_MAX \<and> t0 + timedelta i \<le> INT64_MAX"
  shows "future_dates_from (Some t0) days = Inr (map (\<lambda>i. Some (t0 + timedelta i)) days)"
  using assms(2)
proof (induction days)
  case Nil
  then show ?case by simp
next
  case (Cons i days)
  have i: "0 \<le> i" "timedelta i \<le> INT64_MAX" "t0 + timedelta i \<le> INT64_MAX"
    using Cons.prems by simp_all
  have p: "0 \<le> timedelta i" using i(1) by (simp add: timedelta_def NS_PER_DAY_def)
  have m: "0 \<le> INT64_MAX" by (simp add: INT64_MAX_def)
  have b1: "in_bounds (timedelta i)" using p i(2) m by (simp add: in_bounds_def)
  have b2: "in_bounds (t0 + timedelta i)" using p i(3) assms(1) by (simp add: in_bounds_def)
  have "future_dates_from (Some t0) days = Inr (map (\<lambda>i. Some (t0 + timedelta i)) days)"
    using Cons by simp
  then show ?case using b1 b2 by (simp add: pd_Timedelta_def timestamp_add_def)
qed

lemma future_dates_from_overflow:
  assumes "- INT64_MAX \<le> t0"
    and "\<forall>i\<in>set days. 0 \<le> i \<and> timedelta i \<le> INT64_MAX"
    and "\<exists>i\<in>set days. INT64_MAX < t0 + timedelta i"
  shows "future_dates_from (Some t0) days = Inl OutOfBoundsDatetime"
  using assms(2,3)
proof (induction days)
  case Nil
  then show ?case by simp
next
  case (Cons i days)
  have i: "0 \<le> i" "timedelta i \<le> INT64_MAX" using Cons.prems(1) by simp_all
  have p: "0 \<le> timedelta i" using i(1) by (simp add: timedelta_def NS_PER_DAY_def)
  have m: "0 \<le> INT64_MAX" by (simp add: INT64_MAX_def)
  have b1: "in_bounds (timedelta i)" using p i(2) m by (simp add: in_bounds_def)
  show ?case
  proof (cases "INT64_MAX < t0 + timedelta i")
    case True
    then have "\<not> in_bounds (t0 + timedelta i)" by (simp add: in_bounds_def)
    then show ?thesis using b1 by (simp add: pd_Timedelta_def timestamp_add_def)
  next
    case False
    then have b2: "in_bounds (t0 + timedelta i)" using p assms(1) by (simp add: in_bounds_def)
    have "\<exists>i\<in>set days. INT64_MAX < t0 + timedelta i" using Cons.prems(2) False by auto
    then have "future_dates_from (Some t0) days = Inl OutOfBoundsDatetime"
      using Cons.IH Cons.prems(1) by simp
    then show ?thesis using b1 b2 by (simp add: pd_Timedelta_def timestamp_add_def)
  qed
qed

lemma make_forecast_result:
  assumes col: "getitem (h ! df) ''Date'' = Some (map Stamp ts)"
    and ne: "ts \<noteq> []" and H: "0 < H"
    and td: "timedelta H \<le> INT64_MAX"
    and lo: "- INT64_MAX \<le> Max (set ts)" and hi: "Max (set ts) + timedelta H \<le> INT64_MAX"
  shows "make_forecast m h df H =
         Inr (length h,
              h @ [\<lparr>df_index = [0..<nat H],
                     df_columns =
                       [(''Date'', map (\<lambda>i. Stamp (Max (set ts) + timedelta (int i + 1))) [0..<nat H]),
                        (''Predicted Price'',
                         map (\<lambda>i. Num (m [toordinal (Max (set ts) + timedelta (int i + 1))])) [0..<nat H])]\<rparr>])"
proof -
  have days: "[1..H] = map (\<lambda>i. int i + 1) [0..<nat H]" using H by (simp add: upto_as_map)
  have ne2: "[1..H] \<noteq> []" using H by (simp add: upto_rec1)
  have "nat H \<noteq> 0" using H by simp
  then have ne3: "[0..<nat H] \<noteq> []" by simp
  have each: "\<forall>i\<in>set [1..H]. 0 \<le> i \<and> timedelta i \<le> INT64_MAX \<and>
                Max (set ts) + timedelta i \<le> INT64_MAX"
  proof
    fix i assume "i \<in> set [1..H]"
    then have i: "1 \<le> i" "i \<le> H" by simp_all
    have "timedelta i \<le> timedelta H" using i(2) by (rule timedelta_mono_le)
    then show "0 \<le> i \<and> timedelta i \<le> INT64_MAX \<and> Max (set ts) + timedelta i \<le> INT64_MAX"
      using i(1) td hi by simp
  qed
  have "future_dates_from (Some (Max (set ts))) [1..H]
        = Inr (map (\<lambda>i. Some (Max (set ts) + timedelta i)) [1..H])"
    using lo each by (rule future_dates_from_fits)
  moreover define fds where "fds = map (\<lambda>i. Max (set ts) + timedelta (int i + 1)) [0..<nat H]"
  ultimately have fd: "future_dates_of (map Stamp ts) [1..H] = Inr (map Some fds)"
    using ne2 ne by (simp add: future_dates_of_def as_stamps_Stamp series_max_Some days comp_def)
  have fo: "future_ordinals (map Some fds) = Inr (fds, map (\<lambda>d. [toordinal d]) fds)"
    by (simp only: future_ordinals_def those_map_Some option.case)
  have fne: "fds \<noteq> []" using ne3 by (simp add: fds_def)
  have "make_forecast m h df H =
        Inr (length h, h @ [\<lparr>df_index = [0..<length fds],
                               df_columns = [(''Date'', map Stamp fds),
                                             (''Predicted Price'',
                                              map Num (map m (map (\<lambda>d. [toordinal d]) fds)))]\<rparr>])"
    using fne by (simp add: make_forecast_def col fd fo predict_def alloc_def)
  then show ?thesis by (simp add: fds_def comp_def)
qed

lemma make_forecast_overflow:
  assumes col: "getitem (h ! df) ''Date'' = Some (map Stamp ts)"
    and ne: "ts \<noteq> []" and H: "0 < H"
    and td: "timedelta H \<le> INT64_MAX"
    and lo: "- INT64_MAX \<le> Max (set ts)" and hi: "INT64_MAX < Max (set ts) + timedelta H"
  shows "make_forecast m h df H = Inl OutOfBoundsDatetime"
proof -
  have ne2: "[1..H] \<noteq> []" using H by (simp add: upto_rec1)
  have each: "\<forall>i\<in>set [1..H]. 0 \<le> i \<and> timedelta i \<le> INT64_MAX"
  proof
    fix i assume "i \<in> set [1..H]"
    then have i: "1 \<le> i" "i \<le> H" by simp_all
    have "timedelta i \<le> timedelta H" using i(2) by (rule timedelta_mono_le)
    then show "0 \<le> i \<and> timedelta i \<le> INT64_MAX" using i(1) td by simp
  qed
  have "H \<in> set [1..H]" using H by simp
  then have "\<exists>i\<in>set [1..H]. INT64_MAX < Max (set ts) + timedelta i" using hi by blast
  with lo each have "future_dates_from (Some (Max (set ts))) [1..H] = Inl OutOfBoundsDatetime"
    by (rule future_dates_from_overflow)
  then have "future_dates_of (map Stamp ts) [1..H] = Inl OutOfBoundsDatetime"
    using ne2 ne by (simp add: future_dates_of_def as_stamps_Stamp series_max_Some)
  then show ?thesis by (simp add: make_forecast_def col)
qed

lemma load_price_data_InrD:
  assumes "load_price_data L disk file = Inr loaded" and "read_csv disk file = Inr raw"
  shows "{''Date'', ''Price''} \<subseteq> set (column_names raw) \<and>
         (\<exists>ts. to_datetime (parse_datetime L) (the (getitem raw ''Date'')) = Inr ts \<and>
               list_all (\<lambda>i. i < nrows raw) (argsort L ts))"
  using assms
  by (auto simp: load_price_data_def sort_values_def take_rows_def setitem_def nrows_def
      split: if_splits sum.splits)

lemma loaded_date_column:
  assumes load: "load_price_data L disk file = Inr loaded"
    and raw: "read_csv disk file = Inr raw" and wf: "wf_frame raw"
  shows "\<exists>dates. getitem loaded ''Date'' = Some (map Stamp dates) \<and> length dates = nrows loaded \<and>
                 list_all in_bounds dates"
proof -
  from load_price_data_InrD[OF load raw] obtain ts where
    cols: "{''Date'', ''Price''} \<subseteq> set (column_names raw)" and
    ts: "to_datetime (parse_datetime L) (the (getitem raw ''Date'')) = Inr ts" and
    rng: "list_all (\<lambda>i. i < nrows raw) (argsort L ts)" by blast
  let ?idx = "argsort L ts"
  obtain col where col: "getitem raw ''Date'' = Some col"
    using cols getitem_some_iff[of raw "''Date''"] by auto
  have len: "length ts = nrows raw"
    using to_datetime_length[OF ts] wf_column_length[OF wf col] col by simp
  have loaded: "loaded = \<lparr>df_index = [0..<length ?idx],
              df_columns = map (\<lambda>(name, cs). (name, map (\<lambda>i. cs ! i) ?idx))
                               (set_column ''Date'' (map Stamp ts) (df_columns raw))\<rparr>"
    using load_price_data_unfold[OF raw ts cols rng] load by simp
  have "map (\<lambda>i. map Stamp ts ! i) ?idx = map Stamp (map (\<lambda>i. ts ! i) ?idx)"
    using rng len by (simp add: list_all_iff)
  then have "getitem loaded ''Date'' = Some (map Stamp (map (\<lambda>i. ts ! i) ?idx))"
    by (simp add: loaded getitem_def map_of_take_columns map_of_set_column_same)
  moreover have "length (map (\<lambda>i. ts ! i) ?idx) = nrows loaded"
    by (simp add: loaded nrows_def)
  moreover have "list_all in_bounds (map (\<lambda>i. ts ! i) ?idx)"
    using to_datetime_in_bounds[OF ts] rng len by (simp add: list_all_iff)
  ultimately show ?thesis by blast
qed

lemma map_Stamp_inject: "map Stamp a = map Stamp b \<Longrightarrow> a = b"
  by (simp add: inj_map_eq_map inj_def)

lemma Max_in_bounds:
  assumes "list_all in_bounds ts" and "ts \<noteq> []"
  shows "- INT64_MAX \<le> Max (set ts)"
proof -
  have "Max (set ts) \<in> set ts" using assms(2) by (intro Max_in) simp_all
  then show ?thesis using assms(1) by (simp add: list_all_iff in_bounds_def)
qed

lemma slider_timedelta: "prediction_days_slider H \<Longrightarrow> timedelta H \<le> INT64_MAX"
  by (simp add: prediction_days_slider_def timedelta_def NS_PER_DAY_def INT64_MAX_def)

lemma timedelta_pos: "0 < d \<Longrightarrow> 0 < timedelta d"
  by (simp add: timedelta_def NS_PER_DAY_def)

lemma timedelta_mono: "a < b \<Longrightarrow> timedelta a < timedelta b"
  by (simp add: timedelta_def NS_PER_DAY_def)

lemma toordinal_add_days: "toordinal (t + timedelta d) = toordinal t + d"
  by (simp add: toordinal_def timedelta_def NS_PER_DAY_def)

lemma future_dates_increasing:
  "sorted_wrt (<) (map (\<lambda>i. t + timedelta (int i + 1)) [0..<n])"
  by (simp add: sorted_wrt_map sorted_wrt_iff_nth_less timedelta_mono)

text \<open>
  C1, as amended. For every frame that \<^verbatim>\<open>load_price_data\<close> returns with at least one row
  and every horizon \<open>H\<close> the slider can give (1 to 30) such that the last observed date plus
  \<open>H\<close> days is still a timestamp (not after 2262-04-11T23:47:16.854775807),
  \<^verbatim>\<open>make_forecast\<close> returns a new frame of exactly \<open>H\<close> rows. The timestamp of row \<open>i\<close>
  (from 0) is the greatest observed date plus \<open>i + 1\<close> days and its prediction is that of
  the model at the ordinal of that day: the timestamps increase strictly, one day apart,
  starting one day after the last observed date, so every forecast timestamp is after
  every observed one.
\<close>

theorem make_forecast_horizon_rows:
  assumes load: "load_price_data L disk file = Inr loaded"
    and raw: "read_csv disk file = Inr raw" and wf: "wf_frame raw"
    and rows: "0 < nrows loaded" and heap: "h ! df = loaded"
    and H: "prediction_days_slider H"
    and col: "getitem loaded ''Date'' = Some (map Stamp dates)"
    and fits: "Max (set dates) + timedelta H \<le> INT64_MAX"
  shows "dates \<noteq> [] \<and>
         (\<exists>fc h'.
           make_forecast m h df H = Inr (fc, h') \<and>
           nrows (h' ! fc) = nat H \<and>
           getitem (h' ! fc) ''Date''
             = Some (map (\<lambda>i. Stamp (Max (set dates) + timedelta (int i + 1))) [0..<nat H]) \<and>
           getitem (h' ! fc) ''Predicted Price''
             = Some (map (\<lambda>i. Num (m [toordinal (Max (set dates)) + (int i + 1)])) [0..<nat H]) \<and>
           sorted_wrt (<) (map (\<lambda>i. Max (set dates) + timedelta (int i + 1)) [0..<nat H]) \<and>
           (\<forall>d\<in>set dates. \<forall>i<nat H. d < Max (set dates) + timedelta (int i + 1)))"
proof -
  from loaded_date_column[OF load raw wf] obtain dates' where
    col': "getitem loaded ''Date'' = Some (map Stamp dates')" and
    len': "length dates' = nrows loaded" and bnd': "list_all in_bounds dates'"
    by blast
  have "dates' = dates" using col col' by (simp add: map_Stamp_inject)
  then have len: "length dates = nrows loaded" and bnd: "list_all in_bounds dates"
    using len' bnd' by simp_all
  have ne: "dates \<noteq> []" using len rows by auto
  have H0: "0 < H" using H by (simp add: prediction_days_slider_def)
  have td: "timedelta H \<le> INT64_MAX" using H by (rule slider_timedelta)
  have lo: "- INT64_MAX \<le> Max (set dates)" using bnd ne by (rule Max_in_bounds)
  let ?fc = "\<lparr>df_index = [0..<nat H],
              df_columns =
                [(''Date'', map (\<lambda>i. Stamp (Max (set dates) + timedelta (int i + 1))) [0..<nat H]),
                 (''Predicted Price'',
                  map (\<lambda>i. Num (m [toordinal (Max (set dates) + timedelta (int i + 1))])) [0..<nat H])]\<rparr>"
  have mf: "make_forecast m h df H = Inr (length h, h @ [?fc])"
    using make_forecast_result[of h df dates H m] col ne H0 heap td lo fits by simp
  have nth: "(h @ [?fc]) ! length h = ?fc" by simp
  have n: "nrows ((h @ [?fc]) ! length h) = nat H" by (simp add: nrows_def)
  have d: "getitem ((h @ [?fc]) ! length h) ''Date''
           = Some (map (\<lambda>i. Stamp (Max (set dates) + timedelta (int i + 1))) [0..<nat H])"
    by (simp add: getitem_def)
  have p: "getitem ((h @ [?fc]) ! length h) ''Predicted Price''
           = Some (map (\<lambda>i. Num (m [toordinal (Max (set dates)) + (int i + 1)])) [0..<nat H])"
    by (simp add: getitem_def toordinal_add_days)
  have after: "\<forall>d\<in>set dates. \<forall>i<nat H. d < Max (set dates) + timedelta (int i + 1)"
  proof (intro ballI allI impI)
    fix d i assume "d \<in> set dates"
    then have "d \<le> Max (set dates)" by simp
    moreover have "0 < timedelta (int i + 1)" by (rule timedelta_pos) simp
    ultimately show "d < Max (set dates) + timedelta (int i + 1)" by linarith
  qed
  show ?thesis
    using ne mf n d p future_dates_increasing after by blast
qed

theorem make_forecast_horizon_rows_witness:
  "load_price_data example_lib None (Some example_csv) = Inr example_loaded \<and>
   read_csv None (Some example_csv) = Inr example_csv \<and> wf_frame example_csv \<and>
   0 < nrows example_loaded \<and> [example_loaded] ! 0 = example_loaded \<and>
   prediction_days_slider 7 \<and>
   getitem example_loaded ''Date'' = Some (map Stamp (sort example_stamps)) \<and>
   Max (set (sort example_stamps)) + timedelta 7 \<le> INT64_MAX \<and>
   make_forecast example_model [example_loaded] 0 3 = Inr (1, [example_loaded, example_forecast]) \<and>
   sort example_stamps \<noteq> [] \<and>
   (\<exists>fc h'.
       make_forecast example_model [example_loaded] 0 7 = Inr (fc, h') \<and>
       nrows (h' ! fc) = nat 7 \<and>
       getitem (h' ! fc) ''Date''
         = Some (map (\<lambda>i. Stamp (Max (set (sort example_stamps)) + timedelta (int i + 1)))
                     [0..<nat 7]) \<and>
       getitem (h' ! fc) ''Predicted Price''
         = Some (map (\<lambda>i. Num (example_model
                                   [toordinal (Max (set (sort example_stamps))) + (int i + 1)]))
                     [0..<nat 7]) \<and>
       sorted_wrt (<) (map (\<lambda>i. Max (set (sort example_stamps)) + timedelta (int i + 1))
                           [0..<nat 7]) \<and>
       (\<forall>d\<in>set (sort example_stamps).
           \<forall>i<nat 7. d < Max (set (sort example_stamps)) + timedelta (int i + 1)))"
proof -
  have h1: "load_price_data example_lib None (Some example_csv) = Inr example_loaded"
    by (rule example_load)
  have h2: "read_csv None (Some example_csv) = Inr example_csv" by (simp add: read_csv_def)
  have h3: "wf_frame example_csv" by (simp add: wf_frame_def example_csv_def nrows_def)
  have h4: "0 < nrows example_loaded" by (simp add: example_loaded_def nrows_def)
  have h5: "[example_loaded] ! 0 = example_loaded" by simp
  have h6: "prediction_days_slider 7" by (simp add: prediction_days_slider_def)
  have h7: "getitem example_loaded ''Date'' = Some (map Stamp (sort example_stamps))"
    by (simp add: example_loaded_def getitem_def example_stamps_def)
  have h8: "Max (set (sort example_stamps)) + timedelta 7 \<le> INT64_MAX"
    by (simp add: example_stamps_def timedelta_def NS_PER_DAY_def INT64_MAX_def)
  have f: "make_forecast example_model [example_loaded] 0 3
           = Inr (1, [example_loaded, example_forecast])"
    using example_make_forecast[of "[example_loaded]"] by simp
  from make_forecast_horizon_rows[OF h1 h2 h3 h4 h5 h6 h7 h8, of example_model]
       h1 h2 h3 h4 h5 h6 h7 h8 f
  show ?thesis by blast
qed

text \<open>
  C1 as stated fails for a series that ends near the greatest timestamp. The two rows of
  2262-04-09 and 2262-04-10 load, and for the horizon 3 of the slider the second forecast
  date, 2262-04-12, is past \<^verbatim>\<open>Timestamp.max\<close>: \<^verbatim>\<open>make_forecast\<close> raises and returns no row.
\<close>

theorem make_forecast_late_series_raises:
  "load_price_data example_lib None (Some late_csv) = Inr late_loaded \<and>
   nrows late_loaded = 2 \<and> prediction_days_slider 3 \<and>
   make_forecast example_model [late_loaded] 0 3 = Inl OutOfBoundsDatetime"
proof -
  have k: "npy_argsort [9223113600000000000, 9223200000000000000] = [0, 1]" by code_simp
  have l: "load_price_data example_lib None (Some late_csv) = Inr late_loaded"
    by (simp add: load_price_data_def read_csv_def late_csv_def column_names_def getitem_def
        to_datetime_def example_parser_def example_dates_def NS_PER_DAY_def
        in_bounds_def INT64_MAX_def example_lib_def sort_values_def take_rows_def setitem_def
        nrows_def k reset_index_def upt_rec late_loaded_def)
  have n: "nrows late_loaded = 2" by (simp add: late_loaded_def nrows_def)
  have f: "make_forecast example_model [late_loaded] 0 3 = Inl OutOfBoundsDatetime"
    by (simp add: make_forecast_def late_loaded_def getitem_def future_dates_of_def as_stamps_def
        upto_rec1 pd_Timedelta_def timestamp_add_def in_bounds_def INT64_MAX_def
        timedelta_def NS_PER_DAY_def)
  show ?thesis using l n f by (simp add: prediction_days_slider_def)
qed

text \<open>
  C9, as amended. \<^verbatim>\<open>make_forecast\<close> has no upper bound of its own on the horizon: on a
  frame whose \<^verbatim>\<open>Date\<close> column holds at least one timestamp it returns exactly \<open>H\<close> rows,
  dated one to \<open>H\<close> days after the last date and each with the prediction of the model,
  for every positive \<open>H\<close>, also beyond 30, as long as \<open>H\<close> days are a time difference and
  the last date plus \<open>H\<close> days is a timestamp. The limit of 30 is the slider's alone; what
  bounds the horizon in \<^verbatim>\<open>make_forecast\<close> is the range of pandas' 64-bit timestamps.
\<close>

theorem make_forecast_no_upper_bound:
  assumes "getitem (h ! df) ''Date'' = Some (map Stamp dates)" and "dates \<noteq> []"
    and "list_all in_bounds dates" and "0 < H"
    and "timedelta H \<le> INT64_MAX" and "Max (set dates) + timedelta H \<le> INT64_MAX"
  shows "\<exists>fc h'. make_forecast m h df H = Inr (fc, h') \<and> nrows (h' ! fc) = nat H \<and>
                 length (rows (h' ! fc)) = nat H \<and>
                 df_index (h' ! fc) = [0..<nat H] \<and>
                 df_columns (h' ! fc) =
                   [(''Date'',
                     map (\<lambda>i. Stamp (Max (set dates) + timedelta (int i + 1))) [0..<nat H]),
                    (''Predicted Price'',
                     map (\<lambda>i. Num (m [toordinal (Max (set dates) + timedelta (int i + 1))]))
                         [0..<nat H])]"
proof -
  have lo: "- INT64_MAX \<le> Max (set dates)" using assms(3,2) by (rule Max_in_bounds)
  show ?thesis
    using make_forecast_result[OF assms(1,2,4,5) lo assms(6), of m]
    by (simp add: nrows_def rows_def)
qed

theorem make_forecast_no_upper_bound_witness:
  "getitem ([example_loaded] ! 0) ''Date'' = Some (map Stamp (sort example_stamps)) \<and>
   sort example_stamps \<noteq> [] \<and> list_all in_bounds (sort example_stamps) \<and>
   (0::int) < 45 \<and> timedelta 45 \<le> INT64_MAX \<and>
   Max (set (sort example_stamps)) + timedelta 45 \<le> INT64_MAX \<and>
   \<not> prediction_days_slider 45 \<and>
   (\<exists>fc h'. make_forecast example_model [example_loaded] 0 45 = Inr (fc, h') \<and>
            nrows (h' ! fc) = nat 45 \<and> length (rows (h' ! fc)) = nat 45 \<and>
            df_index (h' ! fc) = [0..<nat 45] \<and>
            df_columns (h' ! fc) =
              [(''Date'',
                map (\<lambda>i. Stamp (Max (set (sort example_stamps)) + timedelta (int i + 1)))
                    [0..<nat 45]),
               (''Predicted Price'',
                map (\<lambda>i. Num (example_model
                       [toordinal (Max (set (sort example_stamps)) + timedelta (int i + 1))]))
                    [0..<nat 45])])"
proof -
  have h1: "getitem ([example_loaded] ! 0) ''Date'' = Some (map Stamp (sort example_stamps))"
    by (simp add: example_loaded_def getitem_def example_stamps_def)
  have h2: "sort example_stamps \<noteq> []" by (simp add: example_stamps_def)
  have h3: "list_all in_bounds (sort example_stamps)"
    by (simp add: example_stamps_def in_bounds_def INT64_MAX_def)
  have h4: "(0::int) < 45" by simp
  have h5: "timedelta 45 \<le> INT64_MAX" by (simp add: timedelta_def NS_PER_DAY_def INT64_MAX_def)
  have h6: "Max (set (sort example_stamps)) + timedelta 45 \<le> INT64_MAX"
    by (simp add: example_stamps_def timedelta_def NS_PER_DAY_def INT64_MAX_def)
  have h7: "\<not> prediction_days_slider 45" by (simp add: prediction_days_slider_def)
  from make_forecast_no_upper_bound[OF h1 h2 h3 h4 h5 h6, of example_model] h1 h2 h3 h4 h5 h6 h7
  show ?thesis by blast
qed

text \<open>
  C9 as stated fails for a horizon that leads past the greatest timestamp: from the ten
  example rows, which end on 2021-01-09, a horizon of 100000 days would end in 2294, and
  \<^verbatim>\<open>make_forecast\<close> raises instead of returning 100000 rows.
\<close>

theorem make_forecast_large_horizon_raises:
  "getitem ([example_loaded] ! 0) ''Date'' = Some (map Stamp (sort example_stamps)) \<and>
   (0::int) < 100000 \<and>
   make_forecast example_model [example_loaded] 0 100000 = Inl OutOfBoundsDatetime"
proof -
  have h1: "getitem ([example_loaded] ! 0) ''Date'' = Some (map Stamp (sort example_stamps))"
    by (simp add: example_loaded_def getitem_def example_stamps_def)
  have h2: "sort example_stamps \<noteq> []" by (simp add: example_stamps_def)
  have h3: "- INT64_MAX \<le> Max (set (sort example_stamps))"
    by (simp add: example_stamps_def INT64_MAX_def)
  have h5: "timedelta 100000 \<le> INT64_MAX"
    by (simp add: timedelta_def NS_PER_DAY_def INT64_MAX_def)
  have h6: "INT64_MAX < Max (set (sort example_stamps)) + timedelta 100000"
    by (simp add: example_stamps_def timedelta_def NS_PER_DAY_def INT64_MAX_def)
  have "make_forecast example_model [example_loaded] 0 100000 = Inl OutOfBoundsDatetime"
    using h1 h2 h3 h5 h6 by (intro make_forecast_overflow[where ts = "sort example_stamps"]) simp_all
  then show ?thesis using h1 by simp
qed

section \<open>The loaded frame is left as it was\<close>

lemma prepare_features_frame:
  assumes "prepare_features h df = Inr (r, h')" and "a < length h"
  shows "h' ! a = h ! a"
  using assms
  by (auto simp: prepare_features_def df_copy_def alloc_def Let_def nth_append
      split: option.splits sum.splits)

lemma make_forecast_frame:
  assumes "make_forecast m h df H = Inr (fc, h')"
  shows "fc = length h \<and> (\<forall>a<length h. h' ! a = h ! a)"
  using assms
  by (auto simp: make_forecast_def alloc_def nth_append split: option.splits sum.splits prod.splits)

lemma run_prediction_history:
  assumes "run_prediction L disk cs file horizon = (Inr out, cs')"
  shows "\<exists>cs1. cached_load_price_data L disk cs file = (Inr (plotted_history out), cs1)"
proof -
  obtain r cs1 where cl: "cached_load_price_data L disk cs file = (r, cs1)" by fastforce
  show ?thesis
  proof (cases r)
    case (Inl e)
    then show ?thesis using assms cl by (simp add: run_prediction_def)
  next
    case (Inr loaded)
    obtain X y h1 where pf: "prepare_features [loaded] 0 = Inr ((X, y), h1)"
      using assms cl Inr by (auto simp: run_prediction_def alloc_def split: sum.splits)
    obtain m rmse best cs2 where tm: "cached_train_model L cs1 X y = (Inr (m, rmse, best), cs2)"
      using assms cl Inr pf
      by (auto simp: run_prediction_def alloc_def split: sum.splits prod.splits)
    obtain fc h2 where mf: "make_forecast m h1 0 horizon = Inr (fc, h2)"
      using assms cl Inr pf tm
      by (auto simp: run_prediction_def alloc_def split: sum.splits prod.splits)
    have out: "plotted_history out = h2 ! 0"
      using assms cl Inr pf tm mf by (auto simp: run_prediction_def alloc_def)
    have "h1 ! 0 = [loaded] ! 0" using prepare_features_frame[OF pf, of 0] by simp
    moreover have "0 < length h1"
      using pf by (auto simp: prepare_features_def df_copy_def alloc_def Let_def
          split: option.splits sum.splits)
    ultimately have "h2 ! 0 = loaded" using make_forecast_frame[OF mf] by simp
    then show ?thesis using cl Inr out by simp
  qed
qed

text \<open>
  C10. The frame that \<^verbatim>\<open>load_price_data\<close> returned is not changed afterwards.
  \<^verbatim>\<open>prepare_features\<close> stores its new column into a copy: every object that existed before
  the call is the same after it. \<^verbatim>\<open>make_forecast\<close> only adds the forecast frame as a new
  object. So the history that a successful run hands to the plot is the frame that the
  (cached) \<^verbatim>\<open>load_price_data\<close> returned to that run.
\<close>

theorem loaded_frame_never_mutated:
  "(prepare_features h df = Inr (r, h1) \<longrightarrow> (\<forall>a<length h. h1 ! a = h ! a)) \<and>
   (make_forecast m h df H = Inr (fc, h2) \<longrightarrow> fc = length h \<and> (\<forall>a<length h. h2 ! a = h ! a)) \<and>
   (run_prediction L disk cs file horizon = (Inr out, cs') \<longrightarrow>
      (\<exists>cs1. cached_load_price_data L disk cs file = (Inr (plotted_history out), cs1)))"
  using prepare_features_frame make_forecast_frame run_prediction_history by blast

theorem loaded_frame_never_mutated_witness:
  "prepare_features [example_loaded] 0
     = Inr ((example_X, example_y),
            [example_loaded,
             setitem example_loaded ''Date_ordinal'' (map IntV [737791, 737792, 737792, 737793, 737794,
                             737795, 737796, 737797, 737798, 737799])]) \<and>
   [example_loaded,
    setitem example_loaded ''Date_ordinal'' (map IntV [737791, 737792, 737792, 737793, 737794,
                             737795, 737796, 737797, 737798, 737799])] ! 0 = example_loaded \<and>
   make_forecast example_model [example_loaded] 0 3
     = Inr (1, [example_loaded, example_forecast]) \<and>
   [example_loaded, example_forecast] ! 0 = example_loaded \<and>
   run_prediction example_lib None empty_caches (Some example_csv) 3
     = (Inr example_outputs, example_caches) \<and>
   (\<exists>cs1. cached_load_price_data example_lib None empty_caches (Some example_csv)
            = (Inr (plotted_history example_outputs), cs1)) \<and>
   plotted_history example_outputs = example_loaded"
proof -
  have p: "prepare_features [example_loaded] 0
     = Inr ((example_X, example_y),
            [example_loaded,
             setitem example_loaded ''Date_ordinal'' (map IntV [737791, 737792, 737792, 737793, 737794,
                             737795, 737796, 737797, 737798, 737799])])"
    by (rule example_prepare)
  have f: "make_forecast example_model [example_loaded] 0 3
           = Inr (1, [example_loaded, example_forecast])"
    using example_make_forecast[of "[example_loaded]"] by simp
  have r: "run_prediction example_lib None empty_caches (Some example_csv) 3
           = (Inr example_outputs, example_caches)"
    by (rule example_run)
  have o: "plotted_history example_outputs = example_loaded" by (simp add: example_outputs_def)
  from loaded_frame_never_mutated
         [where h = "[example_loaded]" and df = 0 and r = "(example_X, example_y)"
            and ?h1.0 = "[example_loaded,
                     setitem example_loaded ''Date_ordinal'' (map IntV [737791, 737792, 737792, 737793, 737794,
                             737795, 737796, 737797, 737798, 737799])]"
            and m = example_model and H = 3 and fc = 1
            and ?h2.0 = "[example_loaded, example_forecast]"
            and L = example_lib and disk = None and cs = empty_caches
            and ?file = "Some example_csv" and horizon = 3 and out = example_outputs
            and cs' = example_caches]
       p f r o
  show ?thesis by simp
qed

section \<open>The hyperparameter search\<close>

lemma takeWhile_stops:
  assumes "x \<in> set xs" and "\<not> P x"
  shows "length (takeWhile P xs) < length xs"
proof (rule ccontr)
  assume "\<not> length (takeWhile P xs) < length xs"
  then have "length (takeWhile P xs) = length xs"
    using length_takeWhile_le[of P xs] by simp
  then have "takeWhile P xs = xs" by (metis takeWhile_eq_take take_all order_refl)
  then have "\<forall>x\<in>set xs. P x" by (simp add: takeWhile_eq_all_conv)
  then show False using assms by blast
qed

lemma best_rank_first_maximum:
  assumes ne: "ms \<noteq> []"
  defines "i \<equiv> argmin (rank_test_score ms)"
  shows "i < length ms \<and> (\<forall>m\<in>set ms. m \<le> ms ! i) \<and> (\<forall>j<i. ms ! j < ms ! i)"
proof -
  define rs where "rs = rank_test_score ms"
  define P where "P = (\<lambda>r. min_list rs < r)"
  have len: "length rs = length ms" by (simp add: rs_def rank_test_score_def)
  have rne: "rs \<noteq> []" using ne len by auto
  have nth: "rs ! k = 1 + length (filter (\<lambda>m'. ms ! k < m') ms)" if "k < length ms" for k
    using that by (simp add: rs_def rank_test_score_def)
  have ml: "min_list rs = Min (set rs)" using rne by (rule min_list_Min)
  have i: "i = length (takeWhile P rs)" by (simp add: i_def argmin_def rs_def P_def)
  have "Min (set rs) \<in> set rs" using rne by (intro Min_in) simp_all
  then have il: "i < length rs"
    unfolding i by (rule takeWhile_stops) (simp add: P_def ml)
  have "\<not> P (rs ! i)" using il unfolding i by (rule nth_length_takeWhile)
  moreover have "min_list rs \<le> rs ! i" using il by (simp add: ml)
  ultimately have ri: "rs ! i = min_list rs" by (simp add: P_def)
  have ge1: "1 \<le> r" if "r \<in> set rs" for r
    using that by (auto simp: rs_def rank_test_score_def)
  obtain k where k: "k < length ms" "ms ! k = Max (set ms)"
    using ne by (metis List.finite_set Max_in in_set_conv_nth set_empty)
  have "filter (\<lambda>m'. ms ! k < m') ms = []"
    using k by (auto simp: filter_empty_conv not_less)
  then have "rs ! k = 1" using nth[OF k(1)] by simp
  then have "1 \<in> set rs" using k(1) len by (metis nth_mem)
  then have "Min (set rs) \<le> 1" by (intro Min_le) simp_all
  moreover have "1 \<le> Min (set rs)" using rne ge1 by (simp add: Min_ge_iff)
  ultimately have m1: "min_list rs = 1" using ml by simp
  have "filter (\<lambda>m'. ms ! i < m') ms = []"
    using ri m1 nth[of i] il len by simp
  then have best: "\<forall>m\<in>set ms. m \<le> ms ! i" by (auto simp: filter_empty_conv not_less)
  have first: "ms ! j < ms ! i" if "j < i" for j
  proof -
    have jl: "j < length ms" using that il len by simp
    have "takeWhile P rs ! j \<in> set (takeWhile P rs)" using that i by simp
    then have "P (takeWhile P rs ! j)" by (rule set_takeWhileD[THEN conjunct2])
    then have "P (rs ! j)" using that i by (simp add: takeWhile_nth)
    then have "filter (\<lambda>m'. ms ! j < m') ms \<noteq> []"
      using nth[OF jl] m1 by (auto simp: P_def)
    then obtain m' where "m' \<in> set ms" "ms ! j < m'"
      by (auto simp: filter_empty_conv)
    then show ?thesis using best by fastforce
  qed
  show ?thesis using il len best first by simp
qed

lemma neg_mean_squared_error_le_0: "neg_mean_squared_error y_true y_pred \<le> 0"
proof -
  have "0 \<le> sum_list (map (\<lambda>(t, p). (t - p)\<^sup>2) (zip y_true y_pred))"
    by (rule sum_list_nonneg) auto
  then show ?thesis by (simp add: neg_mean_squared_error_def mean_def)
qed

lemma mean_test_score_le_0: "mean_test_score fit X y folds p \<le> 0"
proof -
  have "sum_list (map (fit_and_score fit X y p) folds) \<le> 0"
    by (rule sum_list_nonpos) (auto simp: fit_and_score_def Let_def neg_mean_squared_error_le_0)
  then show ?thesis by (simp add: mean_test_score_def mean_def divide_nonpos_nonneg)
qed

text \<open>
  C3. For every grid that is not empty and every series of at least 6 points, so of at least
  \<open>2 \<sdot> K = 10\<close>, with numeric targets, the search returns a result. Its best parameters are
  the member of the grid at the best index. Its best score is the mean over the folds of
  the negated squared error of that candidate, so the mean cross-validated error
  \<open>- best_score\<close> and the reported RMSE \<open>sqrt (- best_score)\<close> are not negative. No candidate
  has a smaller mean error, and every candidate before the best index has a strictly
  greater one: among equal candidates the first of the grid's order wins. For the grid of
  \<^verbatim>\<open>train_model\<close> this is what \<^verbatim>\<open>train_model\<close> returns.
\<close>

theorem grid_search_selects_first_best:
  assumes grid: "grid \<noteq> []" and len: "length X = length y" and n: "6 \<le> length X"
    and num: "those (map as_float y) = Some yf"
  shows "\<exists>gs folds.
           grid_search_fit fit grid 5 X y = Inr gs \<and>
           time_series_split 5 (length X) = Inr folds \<and>
           best_index gs < length grid \<and>
           best_params gs = grid ! best_index gs \<and>
           best_params gs \<in> set grid \<and>
           best_score gs = mean_test_score fit X yf folds (best_params gs) \<and>
           0 \<le> - best_score gs \<and> 0 \<le> sqrt (- best_score gs) \<and>
           (\<forall>p\<in>set grid. - best_score gs \<le> - mean_test_score fit X yf folds p) \<and>
           (\<forall>j<best_index gs. - best_score gs < - mean_test_score fit X yf folds (grid ! j)) \<and>
           (grid = param_grid \<longrightarrow>
              train_model fit X y = Inr (best_estimator gs, sqrt (- best_score gs), best_params gs))"
proof -
  obtain folds where folds: "time_series_split 5 (length X) = Inr folds"
    using time_series_split_explicit[OF n] by blast
  define ms where "ms = map (mean_test_score fit X yf folds) grid"
  define i where "i = argmin (rank_test_score ms)"
  define gs where "gs = \<lparr>best_index = i, best_params = grid ! i, best_score = ms ! i,
                         best_estimator = fit (grid ! i) X yf\<rparr>"
  have mne: "ms \<noteq> []" using grid by (simp add: ms_def)
  have sel: "i < length ms \<and> (\<forall>m\<in>set ms. m \<le> ms ! i) \<and> (\<forall>j<i. ms ! j < ms ! i)"
    unfolding i_def using mne by (rule best_rank_first_maximum)
  have il: "i < length grid" using sel by (simp add: ms_def)
  have fit: "grid_search_fit fit grid 5 X y = Inr gs"
    using grid len folds num by (simp add: grid_search_fit_def Let_def gs_def i_def ms_def)
  have sc: "best_score gs = mean_test_score fit X yf folds (best_params gs)"
    using il by (simp add: gs_def ms_def)
  have nonneg: "0 \<le> - best_score gs" unfolding sc using mean_test_score_le_0 by simp
  have best: "\<forall>p\<in>set grid. - best_score gs \<le> - mean_test_score fit X yf folds p"
  proof
    fix p assume "p \<in> set grid"
    then have "mean_test_score fit X yf folds p \<in> set ms" by (simp add: ms_def)
    then have "mean_test_score fit X yf folds p \<le> ms ! i" using sel by blast
    then show "- best_score gs \<le> - mean_test_score fit X yf folds p" by (simp add: gs_def)
  qed
  have first: "\<forall>j<best_index gs. - best_score gs < - mean_test_score fit X yf folds (grid ! j)"
  proof (intro allI impI)
    fix j assume "j < best_index gs"
    then have j: "j < i" by (simp add: gs_def)
    then have "ms ! j < ms ! i" using sel by blast
    moreover have "ms ! j = mean_test_score fit X yf folds (grid ! j)"
      using j il by (simp add: ms_def)
    ultimately show "- best_score gs < - mean_test_score fit X yf folds (grid ! j)"
      by (simp add: gs_def)
  qed
  have tm: "grid = param_grid \<longrightarrow>
      train_model fit X y = Inr (best_estimator gs, sqrt (- best_score gs), best_params gs)"
    using fit by (auto simp: train_model_def)
  have "best_index gs < length grid" "best_params gs = grid ! best_index gs"
    "best_params gs \<in> set grid"
    using il by (simp_all add: gs_def)
  then show ?thesis using fit folds sc nonneg best first tm by (intro exI[of _ gs] exI[of _ folds]) simp
qed

theorem grid_search_selects_first_best_witness:
  "param_grid \<noteq> [] \<and> length example_X = length example_y \<and> 6 \<le> length example_X \<and>
   2 * 5 \<le> length example_X \<and>
   those (map as_float example_y) = Some example_yf \<and>
   train_model shrunk_mean_fit example_X example_y
     = Inr (example_model, shown_rmse example_outputs, example_best) \<and>
   param_grid ! 6 = example_best \<and> example_means ! 6 = example_means ! 7 \<and>
   (\<exists>gs folds.
       grid_search_fit shrunk_mean_fit param_grid 5 example_X example_y = Inr gs \<and>
       time_series_split 5 (length example_X) = Inr folds \<and>
       best_index gs < length param_grid \<and>
       best_params gs = param_grid ! best_index gs \<and>
       best_params gs \<in> set param_grid \<and>
       best_score gs = mean_test_score shrunk_mean_fit example_X example_yf folds (best_params gs) \<and>
       0 \<le> - best_score gs \<and> 0 \<le> sqrt (- best_score gs) \<and>
       (\<forall>p\<in>set param_grid.
           - best_score gs \<le> - mean_test_score shrunk_mean_fit example_X example_yf folds p) \<and>
       (\<forall>j<best_index gs.
           - best_score gs
             < - mean_test_score shrunk_mean_fit example_X example_yf folds (param_grid ! j)) \<and>
       (param_grid = param_grid \<longrightarrow>
          train_model shrunk_mean_fit example_X example_y
            = Inr (best_estimator gs, sqrt (- best_score gs), best_params gs)))"
proof -
  have h1: "param_grid \<noteq> []" by (simp add: param_grid_def)
  have h2: "length example_X = length example_y" by (simp add: example_X_def example_y_def)
  have h3: "6 \<le> length example_X" by (simp add: example_X_def)
  have h3': "2 * 5 \<le> length example_X" by (simp add: example_X_def)
  have h4: "those (map as_float example_y) = Some example_yf" by (rule example_as_float)
  have t: "train_model shrunk_mean_fit example_X example_y
           = Inr (example_model, shown_rmse example_outputs, example_best)"
    by (rule example_train)
  have g: "param_grid ! 6 = example_best" by (rule example_grid_6)
  have e: "example_means ! 6 = example_means ! 7" by (simp add: example_means_def)
  from grid_search_selects_first_best[OF h1 h2 h3 h4, of shrunk_mean_fit] h1 h2 h3 h3' h4 t g e
  show ?thesis by blast
qed

section \<open>The caches across runs\<close>

lemma load_upload_any_disk:
  "load_price_data L disk (Some f) = load_price_data L None (Some f)"
  by (simp add: load_price_data_def read_csv_def)

lemma cached_load_current:
  assumes "uploads_current L cs" and "file = None \<longrightarrow> bundled_current L disk cs"
  shows "fst (cached_load_price_data L disk cs file) = load_price_data L disk file"
proof (cases "data_cache cs file")
  case None
  then show ?thesis by (simp add: cached_load_price_data_def split: sum.splits)
next
  case (Some df)
  have "load_price_data L disk file = Inr df"
  proof (cases "file")
    case None
    then show ?thesis using assms(2) Some by (simp add: bundled_current_def)
  next
    case (Some f)
    then show ?thesis using assms(1) \<open>data_cache cs file = Some df\<close>
      by (simp add: uploads_current_def load_upload_any_disk[of L disk])
  qed
  then show ?thesis using Some by (simp add: cached_load_price_data_def)
qed

lemma cached_load_caches:
  "resource_cache (snd (cached_load_price_data L disk cs file)) = resource_cache cs \<and>
   (data_cache (snd (cached_load_price_data L disk cs file)) = data_cache cs \<or>
    (\<exists>df. load_price_data L disk file = Inr df \<and>
          data_cache (snd (cached_load_price_data L disk cs file)) = (data_cache cs)(file \<mapsto> df)))"
  by (auto simp: cached_load_price_data_def split: option.splits sum.splits)

lemma cached_train_current:
  assumes "models_current L cs"
  shows "fst (cached_train_model L cs X y) = train_model (svr_fit L) X y"
  using assms
  by (auto simp: cached_train_model_def models_current_def split: option.splits sum.splits)

lemma cached_train_caches:
  "data_cache (snd (cached_train_model L cs X y)) = data_cache cs \<and>
   (resource_cache (snd (cached_train_model L cs X y)) = resource_cache cs \<or>
    (\<exists>r. train_model (svr_fit L) X y = Inr r \<and>
         resource_cache (snd (cached_train_model L cs X y)) = (resource_cache cs)((X, y) \<mapsto> r)))"
  by (auto simp: cached_train_model_def split: option.splits sum.splits)

lemma run_prediction_outcome:
  assumes u: "uploads_current L cs" and b: "file = None \<longrightarrow> bundled_current L disk cs"
    and m: "models_current L cs"
  shows "fst (run_prediction L disk cs file horizon) =
         (case load_price_data L disk file of
            Inl e \<Rightarrow> Inl e
          | Inr loaded \<Rightarrow>
              (case prepare_features [loaded] 0 of
                 Inl e \<Rightarrow> Inl e
               | Inr ((X, y), h1) \<Rightarrow>
                   (case train_model (svr_fit L) X y of
                      Inl e \<Rightarrow> Inl e
                    | Inr (mo, rmse, best) \<Rightarrow>
                        (case make_forecast mo h1 0 horizon of
                           Inl e \<Rightarrow> Inl e
                         | Inr (fc, h2) \<Rightarrow>
                             Inr \<lparr>shown_rmse = rmse, shown_params = best,
                                  shown_forecast = h2 ! fc, plotted_history = h2 ! 0\<rparr>))))"
proof -
  obtain rl c1 where l: "cached_load_price_data L disk cs file = (rl, c1)" by fastforce
  have rl: "rl = load_price_data L disk file" using cached_load_current[OF u b] l by simp
  have "resource_cache c1 = resource_cache cs" using cached_load_caches[of L disk cs "file"] l by simp
  then have m1: "models_current L c1" using m by (simp add: models_current_def)
  have t: "fst (cached_train_model L c1 X y) = train_model (svr_fit L) X y" for X y
    using m1 by (rule cached_train_current)
  show ?thesis
  proof (cases rl)
    case (Inl e)
    have ld: "load_price_data L disk file = Inl e" using rl Inl by simp
    have l': "cached_load_price_data L disk cs file = (Inl e, c1)" using l Inl by simp
    show ?thesis by (simp add: run_prediction_def l' ld)
  next
    case (Inr loaded)
    have ld: "load_price_data L disk file = Inr loaded" using rl Inr by simp
    have l': "cached_load_price_data L disk cs file = (Inr loaded, c1)" using l Inr by simp
    show ?thesis
    proof (cases "prepare_features [loaded] 0")
      case (Inl e)
      then show ?thesis by (simp add: run_prediction_def l' ld alloc_def)
    next
      case pf: (Inr res)
      obtain X y h1 where res: "res = ((X, y), h1)" by (cases res) auto
      obtain rt c2 where ct: "cached_train_model L c1 X y = (rt, c2)" by fastforce
      have rt: "train_model (svr_fit L) X y = rt" using t[of X y] ct by simp
      show ?thesis
        using pf res ct rt
        by (auto simp: run_prediction_def l' ld alloc_def split: sum.splits prod.splits)
    qed
  qed
qed

lemma run_prediction_caches:
  "(data_cache (snd (run_prediction L disk cs file horizon)) = data_cache cs \<or>
    (\<exists>df. load_price_data L disk file = Inr df \<and>
          data_cache (snd (run_prediction L disk cs file horizon)) = (data_cache cs)(file \<mapsto> df))) \<and>
   (resource_cache (snd (run_prediction L disk cs file horizon)) = resource_cache cs \<or>
    (\<exists>X y r. train_model (svr_fit L) X y = Inr r \<and>
         resource_cache (snd (run_prediction L disk cs file horizon)) = (resource_cache cs)((X, y) \<mapsto> r)))"
proof -
  obtain rl c1 where l: "cached_load_price_data L disk cs file = (rl, c1)" by fastforce
  have c1: "resource_cache c1 = resource_cache cs"
    "data_cache c1 = data_cache cs \<or>
      (\<exists>df. load_price_data L disk file = Inr df \<and> data_cache c1 = (data_cache cs)(file \<mapsto> df))"
    using cached_load_caches[of L disk cs "file"] l by simp_all
  show ?thesis
  proof (cases rl)
    case (Inl e)
    then show ?thesis using l c1 by (simp add: run_prediction_def)
  next
    case (Inr loaded)
    show ?thesis
    proof (cases "prepare_features [loaded] 0")
      case (Inl e)
      then show ?thesis using l c1 Inr by (simp add: run_prediction_def alloc_def)
    next
      case pf: (Inr res)
      obtain X y h1 where res: "res = ((X, y), h1)" by (cases res) auto
      obtain rt c2 where ct: "cached_train_model L c1 X y = (rt, c2)" by fastforce
      have c2: "data_cache c2 = data_cache c1"
        "resource_cache c2 = resource_cache c1 \<or>
          (\<exists>r. train_model (svr_fit L) X y = Inr r \<and> resource_cache c2 = (resource_cache c1)((X, y) \<mapsto> r))"
        using cached_train_caches[of L c1 X y] ct by simp_all
      have s: "snd (run_prediction L disk cs file horizon) = c2"
        using l Inr pf res ct
        by (auto simp: run_prediction_def alloc_def split: sum.splits prod.splits)
      show ?thesis unfolding s using c1 c2 by metis
    qed
  qed
qed

text \<open>
  C4, as amended. \<^verbatim>\<open>load_price_data\<close> and \<^verbatim>\<open>train_model\<close> are memoised across runs
  (\<^verbatim>\<open>st.cache_data\<close> keyed by the file argument, \<^verbatim>\<open>st.cache_resource\<close> keyed by \<open>(X, y)\<close>).
  From every cache state whose entries for uploads and for models are current, a run on
  an uploaded file has the outcome of a run of a fresh process on the same input: the same
  RMSE, best parameters, forecast timestamps and values, or the same error. A run on the
  bundled file has it when the entry for the bundled file is current too, that is when
  the file on disk is what it was when the entry was made. The run leaves the entries for
  uploads and for models current (so they are in every state a process reaches from its
  start), and the entry for the bundled file as well while the file does not change.
\<close>

theorem run_prediction_current_caches:
  assumes u: "uploads_current L cs" and m: "models_current L cs"
    and b: "file = None \<longrightarrow> bundled_current L disk cs"
  shows "fst (run_prediction L disk cs file horizon)
           = fst (run_prediction L disk empty_caches file horizon) \<and>
         uploads_current L (snd (run_prediction L disk cs file horizon)) \<and>
         models_current L (snd (run_prediction L disk cs file horizon)) \<and>
         (bundled_current L disk cs \<longrightarrow>
            bundled_current L disk (snd (run_prediction L disk cs file horizon)))"
proof -
  let ?cs = "snd (run_prediction L disk cs file horizon)"
  have e: "uploads_current L empty_caches" "models_current L empty_caches"
    "bundled_current L disk empty_caches"
    by (simp_all add: uploads_current_def models_current_def bundled_current_def empty_caches_def)
  have "fst (run_prediction L disk cs file horizon)
        = fst (run_prediction L disk empty_caches file horizon)"
    using run_prediction_outcome[OF u b m, of horizon]
      run_prediction_outcome[OF e(1) _ e(2), of "file" disk horizon] e(3) by simp
  moreover have "uploads_current L ?cs"
    using run_prediction_caches[of L disk cs "file" horizon] u
    by (auto simp: uploads_current_def load_upload_any_disk[of L disk] split: if_splits)
  moreover have "models_current L ?cs"
    using run_prediction_caches[of L disk cs "file" horizon] m
    by (auto simp: models_current_def split: if_splits)
  moreover have "bundled_current L disk ?cs" if "bundled_current L disk cs"
    using run_prediction_caches[of L disk cs "file" horizon] that
    by (auto simp: bundled_current_def split: if_splits)
  ultimately show ?thesis by blast
qed

theorem run_prediction_current_caches_witness:
  "uploads_current example_lib bundled_caches \<and> models_current example_lib bundled_caches \<and>
   bundled_current example_lib (Some example_csv) bundled_caches \<and>
   \<not> bundled_current example_lib (Some updated_csv) bundled_caches \<and>
   fst (run_prediction example_lib (Some example_csv) bundled_caches None 3) = Inr example_outputs \<and>
   fst (run_prediction example_lib (Some example_csv) empty_caches None 3) = Inr example_outputs \<and>
   uploads_current example_lib
     (snd (run_prediction example_lib (Some example_csv) bundled_caches None 3)) \<and>
   models_current example_lib
     (snd (run_prediction example_lib (Some example_csv) bundled_caches None 3)) \<and>
   bundled_current example_lib (Some example_csv)
     (snd (run_prediction example_lib (Some example_csv) bundled_caches None 3)) \<and>
   fst (run_prediction example_lib (Some updated_csv) bundled_caches (Some example_csv) 3)
     = Inr example_outputs \<and>
   fst (run_prediction example_lib (Some updated_csv) empty_caches (Some example_csv) 3)
     = Inr example_outputs"
proof -
  have u: "uploads_current example_lib bundled_caches"
    by (simp add: uploads_current_def bundled_caches_def)
  have m: "models_current example_lib bundled_caches"
    by (auto simp: models_current_def bundled_caches_def example_lib_fit example_train
        split: if_splits)
  have b: "bundled_current example_lib (Some example_csv) bundled_caches"
    by (simp add: bundled_current_def bundled_caches_def bundled_load)
  have "example_loaded \<noteq> updated_loaded"
  proof
    assume "example_loaded = updated_loaded"
    then have "getitem example_loaded ''Price'' = getitem updated_loaded ''Price''" by simp
    then show False by (simp add: example_loaded_def updated_loaded_def getitem_def)
  qed
  then have s: "\<not> bundled_current example_lib (Some updated_csv) bundled_caches"
    by (simp add: bundled_current_def bundled_caches_def updated_load)
  have f: "fst (run_prediction example_lib (Some example_csv) empty_caches None 3)
           = Inr example_outputs"
    using bundled_run by simp
  have g: "fst (run_prediction example_lib (Some updated_csv) empty_caches (Some example_csv) 3)
           = Inr example_outputs"
    using example_run[of "Some updated_csv"] by simp
  from run_prediction_current_caches[OF u m, of None "Some example_csv" 3]
       run_prediction_current_caches[OF u m, of "Some example_csv" "Some updated_csv" 3]
       u m b s f g
  show ?thesis by simp
qed

text \<open>
  C4 as stated fails: cached state makes two runs on identical raw input differ. With no
  uploaded file the key of \<^verbatim>\<open>load_price_data\<close> is \<^verbatim>\<open>None\<close> whatever \<^verbatim>\<open>bitcoin.csv\<close> holds.
  A process that has run once on the bundled file keeps its frame: when the file on disk
  is later the updated table, that process still answers with the outputs of the old
  table, a forecast for 2021-01-10 to 2021-01-12, while a fresh process on the same
  updated table forecasts 2021-01-11 to 2021-01-13.
\<close>

theorem run_prediction_stale_cache:
  "run_prediction example_lib (Some example_csv) empty_caches None 3
     = (Inr example_outputs, bundled_caches) \<and>
   fst (run_prediction example_lib (Some updated_csv) bundled_caches None 3)
     = Inr example_outputs \<and>
   fst (run_prediction example_lib (Some updated_csv) empty_caches None 3)
     = Inr updated_outputs \<and>
   getitem (shown_forecast example_outputs) ''Date''
     = Some (map Stamp [1610236800000000000, 1610323200000000000, 1610409600000000000]) \<and>
   getitem (shown_forecast updated_outputs) ''Date''
     = Some (map Stamp [1610323200000000000, 1610409600000000000, 1610496000000000000]) \<and>
   example_outputs \<noteq> updated_outputs"
proof -
  have d1: "getitem (shown_forecast example_outputs) ''Date''
     = Some (map Stamp [1610236800000000000, 1610323200000000000, 1610409600000000000])"
    by (simp add: example_outputs_def example_forecast_def getitem_def)
  have d2: "getitem (shown_forecast updated_outputs) ''Date''
     = Some (map Stamp [1610323200000000000, 1610409600000000000, 1610496000000000000])"
    by (simp add: updated_outputs_def updated_forecast_def getitem_def)
  have "example_outputs \<noteq> updated_outputs"
  proof
    assume "example_outputs = updated_outputs"
    then have "getitem (shown_forecast example_outputs) ''Date''
               = getitem (shown_forecast updated_outputs) ''Date''" by simp
    then show False unfolding d1 d2 by simp
  qed
  then show ?thesis using bundled_run stale_run fresh_run d1 d2 by simp
qed

end
